theory Spec2Isabelle
  imports Main
begin

section \<open>Python values used by the wrappers\<close>

text \<open>
  The modules \<^verbatim>\<open>ahkpy/keys.py\<close> and \<^verbatim>\<open>ahkpy/menu.py\<close> translate keyword arguments
  into directives for the AutoHotkey host. A directive is a command name with positional
  arguments; what the wrappers do to the host is the list of directives they issue, in
  order. Names of the source that start with an underscore are written with the prefix
  \<open>u_\<close>. Tri-state keyword arguments (\<^verbatim>\<open>None\<close>, \<^verbatim>\<open>True\<close>, \<^verbatim>\<open>False\<close>) are
  \<open>bool option\<close>; Python integers are \<open>int\<close>.
\<close>

subsection \<open>Strings\<close>

text \<open>
  A string is a list of characters with code points 0 to 255, the Latin-1 part of Unicode.
  On such a string \<^verbatim>\<open>str.lower\<close> works character by character: the letters
  \<^verbatim>\<open>A\<close> to \<^verbatim>\<open>Z\<close> (65 to 90) and the capital letters U+00C0 to U+00DE (192 to 222,
  without the multiplication sign 215) move up by 32 to their small letters, and every
  other character stays.
\<close>

definition lower_char :: "char \<Rightarrow> char" where
  "lower_char c =
     (let n = (of_char c :: nat) in
      if (65 \<le> n \<and> n \<le> 90) \<or> (192 \<le> n \<and> n \<le> 222 \<and> n \<noteq> 215) then char_of (n + 32)
      else c)"

definition lower :: "string \<Rightarrow> string" where
  "lower s = map lower_char s"

text \<open>\<^verbatim>\<open>str(n)\<close> and the \<^verbatim>\<open>{n}\<close> of an f-string, for a Python integer.\<close>

definition digit_char :: "nat \<Rightarrow> char" where
  "digit_char d = char_of (48 + d)"

function str_nat :: "nat \<Rightarrow> string" where
  "str_nat n = (if n < 10 then [digit_char n] else str_nat (n div 10) @ [digit_char (n mod 10)])"
  by pat_completeness auto
termination
  by (relation "measure id") auto

declare str_nat.simps [simp del]

definition str_int :: "int \<Rightarrow> string" where
  "str_int i = (if i < 0 then CHR ''-'' # str_nat (nat (- i)) else str_nat (nat i))"

subsection \<open>Errors and values\<close>

datatype error =
    ValueError string
  | TypeError string
  | AttributeError string
  | OverflowError string
  | Error string

text \<open>
  A Python value that is an integer, a string or \<^verbatim>\<open>None\<close>: an item of a menu is named
  by one, and the mode of a hotstring is one.
\<close>

datatype pyval = PInt int | PStr string | PNone

subsection \<open>Numbers\<close>

text \<open>
  A Python \<^verbatim>\<open>float\<close> is an IEEE 754 double: a finite one is a sign (true for minus), a
  mantissa \<open>m\<close> from \<open>0\<close> to below \<open>2 ^ 53\<close> and an exponent \<open>e\<close> from \<open>-1074\<close> to \<open>971\<close>, with value
  \<open>m * 2 ^ e\<close>; the others are the two infinities and NaN. A number is an integer or a
  float. How Python prints a float (the shortest decimal that reads back as the same
  float) is not computed here: a float comes with the text \<^verbatim>\<open>str\<close> gives for it.
\<close>

datatype pyfloat = Finite bool int int | Infinite bool | NaN

datatype number = IntN int | FloatN pyfloat string

definition is_double :: "pyfloat \<Rightarrow> bool" where
  "is_double x =
     (case x of
        Finite s m e \<Rightarrow> 0 \<le> m \<and> m < 2 ^ 53 \<and> - 1074 \<le> e \<and> e \<le> 971
      | Infinite s \<Rightarrow> True
      | NaN \<Rightarrow> True)"

text \<open>The number of binary digits of a positive integer.\<close>

function bitlen :: "int \<Rightarrow> nat" where
  "bitlen n = (if n \<le> 0 then 0 else Suc (bitlen (n div 2)))"
  by pat_completeness auto
termination
  by (relation "measure nat") auto

declare bitlen.simps [simp del]

text \<open>
  The double nearest to \<open>M * 2 ^ E\<close> with sign \<open>s\<close>, for \<open>E\<close> from \<open>-1074\<close> to \<open>971\<close>: the
  mantissa is cut to 53 binary digits, the \<open>k\<close> digits cut off decide the rounding (to
  nearest, a tie to the even mantissa), and a result of \<open>2 ^ 1024\<close> or more is infinite.
\<close>

definition round_double :: "bool \<Rightarrow> int \<Rightarrow> int \<Rightarrow> pyfloat" where
  "round_double s M E =
     (let k = bitlen M - 53;
          q = M div 2 ^ k;
          r = M mod 2 ^ k;
          q' = (if 2 ^ k < 2 * r \<or> (2 * r = 2 ^ k \<and> odd q) then q + 1 else q);
          m = (if q' = 2 ^ 53 then 2 ^ 52 else q');
          e = (if q' = 2 ^ 53 then E + int k + 1 else E + int k)
      in if 971 < e then Infinite s else Finite s m e)"

text \<open>
  \<^verbatim>\<open>x * 1000\<close> for a float \<open>x\<close>: the integer becomes the float 1000, and the exact
  product is rounded.
\<close>

fun times_1000 :: "pyfloat \<Rightarrow> pyfloat" where
  "times_1000 (Finite s m e) = round_double s (m * 1000) e"
| "times_1000 (Infinite s) = Infinite s"
| "times_1000 NaN = NaN"

text \<open>\<^verbatim>\<open>int(x)\<close> for a float: the value truncated towards zero; an infinity and NaN raise.\<close>

fun int_of_float :: "pyfloat \<Rightarrow> error + int" where
  "int_of_float (Finite s m e) =
     (let n = (if 0 \<le> e then m * 2 ^ nat e else m div 2 ^ nat (- e)) in
      Inr (if s then - n else n))"
| "int_of_float (Infinite s) = Inl (OverflowError ''cannot convert float infinity to integer'')"
| "int_of_float NaN = Inl (ValueError ''cannot convert float NaN to integer'')"

text \<open>\<^verbatim>\<open>x > 0\<close> for a number; it is false for both zeros and for NaN.\<close>

fun positive :: "number \<Rightarrow> bool" where
  "positive (IntN i) = (0 < i)"
| "positive (FloatN (Finite s m e) t) = (\<not> s \<and> 0 < m)"
| "positive (FloatN (Infinite s) t) = (\<not> s)"
| "positive (FloatN NaN t) = False"

text \<open>\<^verbatim>\<open>int(x * 1000)\<close> for a number.\<close>

fun int_times_1000 :: "number \<Rightarrow> error + int" where
  "int_times_1000 (IntN i) = Inr (i * 1000)"
| "int_times_1000 (FloatN x t) = int_of_float (times_1000 x)"

text \<open>The \<^verbatim>\<open>{x}\<close> of an f-string, for a number.\<close>

fun str_number :: "number \<Rightarrow> string" where
  "str_number (IntN i) = str_int i"
| "str_number (FloatN x t) = t"

subsection \<open>Callables, contexts and host directives\<close>

text \<open>
  A callable is either a function of the caller, known by an identifier only, or one of the
  closures that \<^verbatim>\<open>remap_key\<close> builds, which calls \<^verbatim>\<open>send\<close> on a fixed key string.
\<close>

datatype callable = UserFunc nat | SendClosure string

text \<open>
  \<^verbatim>\<open>BaseHotkeyContext\<close> is the default context; \<^verbatim>\<open>HotkeyContext\<close> carries the wrapped
  predicate.
\<close>

datatype hotkey_context = BaseHotkeyContext | HotkeyContext callable

datatype arg = Str string | Num int | Fn callable | Hash hotkey_context | NoneArg

datatype ahk_call = Call string "arg list"

text \<open>An outcome is the value returned or the error raised, with the directives issued.\<close>

type_synonym 'a outcome = "(error + 'a) \<times> ahk_call list"

text \<open>Python truthiness of a host answer, as \<^verbatim>\<open>bool(result)\<close> computes it.\<close>

fun truthy :: "arg \<Rightarrow> bool" where
  "truthy (Str s) = (s \<noteq> [])"
| "truthy (Num n) = (n \<noteq> 0)"
| "truthy (Fn f) = True"
| "truthy (Hash c) = True"
| "truthy NoneArg = False"

text \<open>
  \<^verbatim>\<open>_enter\<close> and \<^verbatim>\<open>_exit\<close> do nothing in the default context and tell the host
  about the predicate in a \<^verbatim>\<open>HotkeyContext\<close>. \<^verbatim>\<open>_manager\<close> runs the body between
  them; the lock it holds has no effect on the directives of a single caller.
\<close>

fun u_enter :: "hotkey_context \<Rightarrow> ahk_call list" where
  "u_enter BaseHotkeyContext = []"
| "u_enter (HotkeyContext p) = [Call ''HotkeyContext'' [Fn p]]"

fun u_exit :: "hotkey_context \<Rightarrow> ahk_call list" where
  "u_exit BaseHotkeyContext = []"
| "u_exit (HotkeyContext p) = [Call ''HotkeyExitContext'' []]"

definition u_manager :: "hotkey_context \<Rightarrow> ahk_call list \<Rightarrow> ahk_call list" where
  "u_manager c body = u_enter c @ body @ u_exit c"

section \<open>Hotstrings\<close>

record Hotstring =
  string :: string
  case_sensitive :: bool
  replace_inside_word :: bool
  hs_context :: hotkey_context

text \<open>
  The dataclass constructor followed by \<^verbatim>\<open>__post_init__\<close>: a trigger string always has
  the attribute \<^verbatim>\<open>lower\<close>, so the string is folded unless the hotstring is case
  sensitive.
\<close>

definition post_init :: "Hotstring \<Rightarrow> Hotstring" where
  "post_init hs = (if \<not> case_sensitive hs then hs\<lparr>string := lower (string hs)\<rparr> else hs)"

definition new_Hotstring :: "string \<Rightarrow> bool \<Rightarrow> bool \<Rightarrow> hotkey_context \<Rightarrow> Hotstring" where
  "new_Hotstring s cs riw c =
     post_init \<lparr>string = s, case_sensitive = cs, replace_inside_word = riw, hs_context = c\<rparr>"

definition u_id_options :: "Hotstring \<Rightarrow> string" where
  "u_id_options hs =
     (if case_sensitive hs then ''C'' else '''') @ (if replace_inside_word hs then ''?'' else ''?0'')"

definition Hotstring_switch :: "Hotstring \<Rightarrow> string \<Rightarrow> ahk_call list" where
  "Hotstring_switch hs what =
     u_manager (hs_context hs)
       [Call ''Hotstring'' [Str ('':'' @ u_id_options hs @ '':'' @ string hs), Str '''', Str what]]"

definition Hotstring_disable :: "Hotstring \<Rightarrow> ahk_call list" where
  "Hotstring_disable hs = Hotstring_switch hs ''Off''"

definition Hotstring_enable :: "Hotstring \<Rightarrow> ahk_call list" where
  "Hotstring_enable hs = Hotstring_switch hs ''On''"

definition Hotstring_toggle :: "Hotstring \<Rightarrow> ahk_call list" where
  "Hotstring_toggle hs = Hotstring_switch hs ''Toggle''"

subsection \<open>The option encoder of \<^verbatim>\<open>Hotstring.update\<close>\<close>

datatype replacement = RText string | RFunc callable

text \<open>
  The keyword arguments of \<^verbatim>\<open>update\<close>. The mode is a string, \<^verbatim>\<open>None\<close>, or an
  integer, which stands for the values that have no method \<^verbatim>\<open>lower\<close>.
\<close>

record update_args =
  replacement :: "replacement option"
  conform_to_case :: "bool option"
  wait_for_end_char :: "bool option"
  omit_end_char :: "bool option"
  backspacing :: "bool option"
  priority :: "int option"
  text_flag :: "bool option"
  mode :: pyval
  key_delay :: "number option"
  reset_recognizer :: "bool option"

text \<open>All keyword arguments left at their default \<^verbatim>\<open>None\<close>.\<close>

definition no_args :: update_args where
  "no_args = \<lparr>replacement = None, conform_to_case = None, wait_for_end_char = None,
     omit_end_char = None, backspacing = None, priority = None, text_flag = None, mode = PNone,
     key_delay = None, reset_recognizer = None\<rparr>"

text \<open>
  A flag with the shape \<^verbatim>\<open>if x: append(on) elif x is not None: append(off)\<close>.
\<close>

definition flag_tokens :: "bool option \<Rightarrow> string \<Rightarrow> string \<Rightarrow> string list" where
  "flag_tokens x on off = (if x = Some True then [on] else if x \<noteq> None then [off] else [])"

definition case_tokens :: "Hotstring \<Rightarrow> bool option \<Rightarrow> string list" where
  "case_tokens hs conform =
     (if case_sensitive hs then [''C'']
      else if conform = Some True then [''C0'']
      else if conform \<noteq> None then [''C1'']
      else [])"

definition inside_tokens :: "Hotstring \<Rightarrow> string list" where
  "inside_tokens hs = (if replace_inside_word hs then [''?''] else [''?0''])"

definition end_char_tokens :: "bool option \<Rightarrow> bool option \<Rightarrow> string list" where
  "end_char_tokens wait omit =
     (if wait = Some False then [''*'']
      else if omit = Some True then [''*0'', ''O'']
      else (if wait = Some True then [''*0''] else []) @
           (if omit = Some False then [''O0''] else []))"

text \<open>
  The key delay is a number or \<^verbatim>\<open>None\<close>. The step
  \<^verbatim>\<open>if key_delay > 0: key_delay = int(key_delay * 1000)\<close> gives the number that is
  printed after \<^verbatim>\<open>K\<close>, or raises where \<^verbatim>\<open>int\<close> does.
\<close>

definition scale_key_delay :: "number \<Rightarrow> error + number" where
  "scale_key_delay d =
     (if positive d then (case int_times_1000 d of Inl e \<Rightarrow> Inl e | Inr n \<Rightarrow> Inr (IntN n))
      else Inr d)"

text \<open>
  A call of \<^verbatim>\<open>update\<close> builds its list of options step by step, and two steps can
  raise: the key delay and the mode. For each of them one function gives the error raised,
  if any, and one the tokens appended, none where the step raises; the list is sent to the
  host only if no step raises.
\<close>

definition key_delay_error :: "number option \<Rightarrow> error option" where
  "key_delay_error kd =
     (case kd of
        None \<Rightarrow> None
      | Some d \<Rightarrow> (case scale_key_delay d of Inl e \<Rightarrow> Some e | Inr v \<Rightarrow> None))"

definition key_delay_tokens :: "number option \<Rightarrow> string list" where
  "key_delay_tokens kd =
     (case kd of
        None \<Rightarrow> []
      | Some d \<Rightarrow> (case scale_key_delay d of Inl e \<Rightarrow> [] | Inr v \<Rightarrow> [''K'' @ str_number v]))"

definition priority_tokens :: "int option \<Rightarrow> string list" where
  "priority_tokens p = (case p of None \<Rightarrow> [] | Some n \<Rightarrow> [''P'' @ str_int n])"

text \<open>The constants of the class \<^verbatim>\<open>SendMode\<close>.\<close>

definition INPUT :: string where
  "INPUT = ''input''"

definition PLAY :: string where
  "PLAY = ''play''"

definition EVENT :: string where
  "EVENT = ''event''"

text \<open>
  The step \<^verbatim>\<open>if mode is not None: mode = mode.lower()\<close>: an integer has no method
  \<^verbatim>\<open>lower\<close>.
\<close>

fun lower_mode :: "pyval \<Rightarrow> error + pyval" where
  "lower_mode PNone = Inr PNone"
| "lower_mode (PStr s) = Inr (PStr (lower s))"
| "lower_mode (PInt n) = Inl (AttributeError ''int object has no attribute lower'')"

definition mode_error :: "pyval \<Rightarrow> error option" where
  "mode_error m = (case lower_mode m of Inl e \<Rightarrow> Some e | Inr m' \<Rightarrow> None)"

definition mode_tokens :: "pyval \<Rightarrow> string list" where
  "mode_tokens m =
     (case lower_mode m of
        Inl e \<Rightarrow> []
      | Inr m' \<Rightarrow>
          if m' = PStr INPUT then [''SI'']
          else if m' = PStr PLAY then [''SP'']
          else if m' = PStr EVENT then [''SE'']
          else [])"

definition update_options :: "Hotstring \<Rightarrow> update_args \<Rightarrow> string list" where
  "update_options hs a =
     case_tokens hs (conform_to_case a) @
     inside_tokens hs @
     end_char_tokens (wait_for_end_char a) (omit_end_char a) @
     flag_tokens (backspacing a) ''B'' ''B0'' @
     key_delay_tokens (key_delay a) @
     priority_tokens (priority a) @
     flag_tokens (text_flag a) ''T'' ''T0'' @
     mode_tokens (mode a) @
     flag_tokens (reset_recognizer a) ''Z'' ''Z0''"

text \<open>The error of the first step that raises: the key delay comes before the mode.\<close>

definition update_raises :: "update_args \<Rightarrow> error option" where
  "update_raises a =
     (case key_delay_error (key_delay a) of Some e \<Rightarrow> Some e | None \<Rightarrow> mode_error (mode a))"

text \<open>\<^verbatim>\<open>replacement or ""\<close>: \<^verbatim>\<open>None\<close> and the empty text both give the empty text.\<close>

fun replacement_arg :: "replacement option \<Rightarrow> arg" where
  "replacement_arg None = Str ''''"
| "replacement_arg (Some (RText s)) = Str s"
| "replacement_arg (Some (RFunc f)) = Fn f"

definition Hotstring_update :: "Hotstring \<Rightarrow> update_args \<Rightarrow> unit outcome" where
  "Hotstring_update hs a =
     (case update_raises a of
        Some e \<Rightarrow> (Inl e, [])
      | None \<Rightarrow>
          (Inr (),
           u_manager (hs_context hs)
             [Call ''Hotstring''
                [Str ('':'' @ concat (update_options hs a) @ '':'' @ string hs),
                 replacement_arg (replacement a)]]))"

section \<open>Key state queries\<close>

text \<open>
  The host answers a query; \<open>host\<close> is its answer to a directive. An empty answer to
  \<^verbatim>\<open>GetKeyState\<close> is turned into a \<^verbatim>\<open>ValueError\<close> after the call has been made.
\<close>

definition u_get_key_state :: "(ahk_call \<Rightarrow> arg) \<Rightarrow> string \<Rightarrow> arg \<Rightarrow> bool outcome" where
  "u_get_key_state host k md =
     (let c = Call ''GetKeyState'' [Str k, md]; result = host c in
      if result = Str ''''
      then (Inl (ValueError ''key_name is invalid or the state of the key could not be determined''), [c])
      else (Inr (truthy result), [c]))"

definition get_key_state :: "(ahk_call \<Rightarrow> arg) \<Rightarrow> string \<Rightarrow> bool outcome" where
  "get_key_state host k = u_get_key_state host k NoneArg"

definition get_physical_key_state :: "(ahk_call \<Rightarrow> arg) \<Rightarrow> string \<Rightarrow> bool outcome" where
  "get_physical_key_state host k = u_get_key_state host k (Str ''P'')"

definition toggle_keys :: "string list" where
  "toggle_keys = [''capslock'', ''numlock'', ''scrolllock'', ''insert'', ''ins'']"

definition is_key_toggled :: "(ahk_call \<Rightarrow> arg) \<Rightarrow> string \<Rightarrow> bool outcome" where
  "is_key_toggled host k =
     (if lower k \<notin> set toggle_keys
      then (Inl (ValueError ''key_name must be one of CapsLock, NumLock, ScrollLock, or Insert''), [])
      else u_get_key_state host k (Str ''T''))"

section \<open>Sending keys\<close>

definition u_send_level :: "int \<Rightarrow> unit outcome" where
  "u_send_level level =
     (if \<not> (0 \<le> level \<and> level \<le> 100)
      then (Inl (ValueError ''level must be between 0 and 100''), [])
      else (Inr (), [Call ''SendLevel'' [Num level]]))"

text \<open>
  \<^verbatim>\<open>send\<close> compares the mode with the three constants as it is given, without folding
  its case, and raises on any other mode before it looks at the level. The message of that
  error quotes the mode; only its fixed part is kept here.
\<close>

definition send_cmd :: "string \<Rightarrow> error + string" where
  "send_cmd md =
     (if md = INPUT then Inr ''SendInput''
      else if md = PLAY then Inr ''SendPlay''
      else if md = EVENT then Inr ''SendEvent''
      else Inl (ValueError ''unknown send mode''))"

definition send :: "string \<Rightarrow> string \<Rightarrow> int \<Rightarrow> unit outcome" where
  "send keys md level =
     (case send_cmd md of
        Inl e \<Rightarrow> (Inl e, [])
      | Inr cmd \<Rightarrow>
          (case u_send_level level of
             (Inl e, t) \<Rightarrow> (Inl e, t)
           | (Inr _, t) \<Rightarrow> (Inr (), t @ [Call cmd [Str keys]])))"

section \<open>Hotkeys and remapped keys\<close>

record Hotkey =
  key_name :: string
  hk_context :: hotkey_context

definition Hotkey_switch :: "Hotkey \<Rightarrow> string \<Rightarrow> ahk_call list" where
  "Hotkey_switch hk what =
     u_manager (hk_context hk) [Call ''HotkeySpecial'' [Str (key_name hk), Str what]]"

definition Hotkey_enable :: "Hotkey \<Rightarrow> ahk_call list" where
  "Hotkey_enable hk = Hotkey_switch hk ''On''"

definition Hotkey_disable :: "Hotkey \<Rightarrow> ahk_call list" where
  "Hotkey_disable hk = Hotkey_switch hk ''Off''"

definition Hotkey_toggle :: "Hotkey \<Rightarrow> ahk_call list" where
  "Hotkey_toggle hk = Hotkey_switch hk ''Toggle''"

definition number_tokens :: "string \<Rightarrow> int option \<Rightarrow> string list" where
  "number_tokens letter v = (case v of None \<Rightarrow> [] | Some n \<Rightarrow> [letter @ str_int n])"

definition Hotkey_update ::
  "Hotkey \<Rightarrow> callable option \<Rightarrow> bool option \<Rightarrow> int option \<Rightarrow> int option \<Rightarrow> int option \<Rightarrow> ahk_call list"
where
  "Hotkey_update hk func buffer prio max_threads input_level =
     (let options =
        flag_tokens buffer ''B'' ''B0'' @
        number_tokens ''P'' prio @
        number_tokens ''T'' max_threads @
        number_tokens ''I'' input_level
      in u_manager (hk_context hk)
           [Call ''Hotkey''
              [Hash (hk_context hk), Str (key_name hk),
               (case func of None \<Rightarrow> Str '''' | Some f \<Rightarrow> Fn f),
               Str (concat options)]])"

text \<open>
  \<^verbatim>\<open>BaseHotkeyContext.hotkey\<close> with the function to bind, given directly or through
  the decorator it returns: the key name is checked, then the binding is created, updated
  and enabled.
\<close>

definition hotkey_decorator ::
  "hotkey_context \<Rightarrow> string \<Rightarrow> bool option \<Rightarrow> int option \<Rightarrow> int option \<Rightarrow> int option \<Rightarrow> callable
     \<Rightarrow> Hotkey \<times> ahk_call list"
where
  "hotkey_decorator c k buffer prio max_threads input_level func =
     (let hk = \<lparr>key_name = k, hk_context = c\<rparr> in
      (hk, Hotkey_update hk (Some func) buffer prio max_threads input_level @ Hotkey_enable hk))"

definition hotkey ::
  "hotkey_context \<Rightarrow> string \<Rightarrow> callable \<Rightarrow> bool option \<Rightarrow> int option \<Rightarrow> int option \<Rightarrow> int option
     \<Rightarrow> Hotkey outcome"
where
  "hotkey c k func buffer prio max_threads input_level =
     (if k = '''' then (Inl (Error ''invalid key name''), [])
      else (case hotkey_decorator c k buffer prio max_threads input_level func of
              (hk, t) \<Rightarrow> (Inr hk, t)))"

definition default_context :: hotkey_context where
  "default_context = BaseHotkeyContext"

record RemappedKey =
  wildcard_origin :: Hotkey
  wildcard_origin_up :: Hotkey

definition RemappedKey_enable :: "RemappedKey \<Rightarrow> ahk_call list" where
  "RemappedKey_enable rk = Hotkey_enable (wildcard_origin rk) @ Hotkey_enable (wildcard_origin_up rk)"

definition RemappedKey_disable :: "RemappedKey \<Rightarrow> ahk_call list" where
  "RemappedKey_disable rk = Hotkey_disable (wildcard_origin rk) @ Hotkey_disable (wildcard_origin_up rk)"

definition RemappedKey_toggle :: "RemappedKey \<Rightarrow> ahk_call list" where
  "RemappedKey_toggle rk = Hotkey_toggle (wildcard_origin rk) @ Hotkey_toggle (wildcard_origin_up rk)"

text \<open>
  \<^verbatim>\<open>remap_key\<close> registers its two closures through the module-level \<^verbatim>\<open>hotkey\<close> of the
  default context, with the defaults of that function: \<^verbatim>\<open>buffer=False\<close>,
  \<^verbatim>\<open>priority=0\<close>, \<^verbatim>\<open>max_threads=1\<close>, \<^verbatim>\<open>input_level=0\<close>.
\<close>

definition remap_key :: "string \<Rightarrow> string \<Rightarrow> RemappedKey outcome" where
  "remap_key origin_key destination_key =
     (case hotkey default_context (''*'' @ origin_key)
             (SendClosure (''{Blind}{'' @ destination_key @ '' DownR}''))
             (Some False) (Some 0) (Some 1) (Some 0) of
        (Inl e, t) \<Rightarrow> (Inl e, t)
      | (Inr down, t) \<Rightarrow>
          (case hotkey default_context (''*'' @ origin_key @ '' Up'')
                  (SendClosure (''{Blind}{'' @ destination_key @ '' Up}''))
                  (Some False) (Some 0) (Some 1) (Some 0) of
             (Inl e, t') \<Rightarrow> (Inl e, t @ t')
           | (Inr up, t') \<Rightarrow> (Inr \<lparr>wildcard_origin = down, wildcard_origin_up = up\<rparr>, t @ t')))"

section \<open>Menus\<close>

text \<open>
  An item of a menu is named by an integer position, a string, or \<^verbatim>\<open>None\<close>.
  \<^verbatim>\<open>_item_name\<close> returns such a value again, and several operations apply it to a value
  that has been through it already.
\<close>

fun u_item_name :: "pyval \<Rightarrow> pyval" where
  "u_item_name (PInt n) = PStr (str_int (n + 1) @ ''&'')"
| "u_item_name (PStr s) = PStr s"
| "u_item_name PNone = PNone"

text \<open>A Python value as it is handed to the host.\<close>

fun to_arg :: "pyval \<Rightarrow> arg" where
  "to_arg (PInt n) = Num n"
| "to_arg (PStr s) = Str s"
| "to_arg PNone = NoneArg"

record Menu =
  name :: string

definition u_call :: "Menu \<Rightarrow> arg list \<Rightarrow> ahk_call list" where
  "u_call m as = [Call ''Menu'' (Str (name m) # as)]"

definition Menu_delete_item :: "Menu \<Rightarrow> pyval \<Rightarrow> ahk_call list" where
  "Menu_delete_item m item_name = u_call m [Str ''Delete'', to_arg (u_item_name item_name)]"

definition Menu_rename :: "Menu \<Rightarrow> pyval \<Rightarrow> pyval \<Rightarrow> ahk_call list" where
  "Menu_rename m item_name new_name =
     (let item = (if item_name \<noteq> PNone then u_item_name item_name else item_name) in
      u_call m [Str ''Rename'', to_arg item, to_arg new_name])"

definition Menu_check :: "Menu \<Rightarrow> pyval \<Rightarrow> ahk_call list" where
  "Menu_check m item_name = u_call m [Str ''Check'', to_arg (u_item_name item_name)]"

definition Menu_uncheck :: "Menu \<Rightarrow> pyval \<Rightarrow> ahk_call list" where
  "Menu_uncheck m item_name = u_call m [Str ''Uncheck'', to_arg (u_item_name item_name)]"

definition Menu_toggle_check :: "Menu \<Rightarrow> pyval \<Rightarrow> ahk_call list" where
  "Menu_toggle_check m item_name = u_call m [Str ''ToggleCheck'', to_arg (u_item_name item_name)]"

definition Menu_enable :: "Menu \<Rightarrow> pyval \<Rightarrow> ahk_call list" where
  "Menu_enable m item_name = u_call m [Str ''Enable'', to_arg (u_item_name item_name)]"

definition Menu_disable :: "Menu \<Rightarrow> pyval \<Rightarrow> ahk_call list" where
  "Menu_disable m item_name = u_call m [Str ''Disable'', to_arg (u_item_name item_name)]"

definition Menu_toggle_enable :: "Menu \<Rightarrow> pyval \<Rightarrow> ahk_call list" where
  "Menu_toggle_enable m item_name = u_call m [Str ''ToggleEnable'', to_arg (u_item_name item_name)]"

definition Menu_set_default :: "Menu \<Rightarrow> pyval \<Rightarrow> ahk_call list" where
  "Menu_set_default m item_name = u_call m [Str ''Default'', to_arg (u_item_name item_name)]"

text \<open>\<^verbatim>\<open>number or 0\<close> is \<open>0\<close> for \<^verbatim>\<open>None\<close> and the number itself otherwise.\<close>

definition Menu_set_icon :: "Menu \<Rightarrow> pyval \<Rightarrow> string \<Rightarrow> int option \<Rightarrow> int option \<Rightarrow> ahk_call list" where
  "Menu_set_icon m item_name filename number width =
     (let number' = (case number of None \<Rightarrow> 0 | Some n \<Rightarrow> n) in
      u_call m [Str ''Icon'', to_arg (u_item_name item_name), Str filename, Num (number' + 1),
                (case width of None \<Rightarrow> NoneArg | Some w \<Rightarrow> Num w)])"

definition Menu_remove_icon :: "Menu \<Rightarrow> pyval \<Rightarrow> ahk_call list" where
  "Menu_remove_icon m item_name = u_call m [Str ''NoIcon'', to_arg (u_item_name item_name)]"

subsection \<open>Inserting and updating items\<close>

record item_args =
  callback :: "callable option"
  submenu :: "Menu option"
  item_priority :: "int option"
  is_default :: "bool option"
  enabled :: "bool option"
  checked :: "bool option"
  radio :: "bool option"
  right :: "bool option"
  new_column :: "bool option"
  bar_column :: "bool option"
  icon :: "string option"
  icon_number :: "int option"
  icon_width :: "int option"

text \<open>The defaults of the keyword arguments of \<^verbatim>\<open>_insert_or_update\<close>.\<close>

definition item_defaults :: item_args where
  "item_defaults = \<lparr>callback = None, submenu = None, item_priority = None,
     is_default = Some False, enabled = Some True, checked = Some False,
     radio = None, right = None, new_column = None, bar_column = None,
     icon = None, icon_number = None, icon_width = None\<rparr>"

definition thing :: "item_args \<Rightarrow> arg" where
  "thing a =
     (case submenu a of
        Some sm \<Rightarrow> Str ('':'' @ name sm)
      | None \<Rightarrow> (case callback a of Some cb \<Rightarrow> Fn cb | None \<Rightarrow> NoneArg))"

fun join :: "string \<Rightarrow> string list \<Rightarrow> string" where
  "join sep [] = ''''"
| "join sep [x] = x"
| "join sep (x # y # ys) = x @ sep @ join sep (y # ys)"

definition sign_tokens :: "bool option \<Rightarrow> string \<Rightarrow> string list" where
  "sign_tokens x word = (case x of None \<Rightarrow> [] | Some b \<Rightarrow> [(if b then ''+'' else ''-'') @ word])"

definition option_str :: "item_args \<Rightarrow> string" where
  "option_str a =
     join '' ''
       (number_tokens ''P'' (item_priority a) @
        sign_tokens (radio a) ''Radio'' @
        sign_tokens (right a) ''Right'' @
        sign_tokens (new_column a) ''Break'' @
        sign_tokens (bar_column a) ''BarBreak'')"

definition icon_calls :: "Menu \<Rightarrow> pyval \<Rightarrow> item_args \<Rightarrow> ahk_call list" where
  "icon_calls m item a =
     (case icon a of
        None \<Rightarrow> []
      | Some f \<Rightarrow> if f \<noteq> '''' then Menu_set_icon m item f (icon_number a) (icon_width a) else [])"

text \<open>
  The two branches of \<^verbatim>\<open>_insert_or_update\<close>, chosen by its flag \<^verbatim>\<open>update\<close>, are two
  functions. With \<^verbatim>\<open>update=True\<close> the new name may be the sentinel \<^verbatim>\<open>UNSET\<close>, here
  \<open>None\<close>; every caller of the other branch passes a name or \<^verbatim>\<open>None\<close>.
\<close>

definition u_update_item :: "Menu \<Rightarrow> pyval \<Rightarrow> pyval option \<Rightarrow> item_args \<Rightarrow> ahk_call list" where
  "u_update_item m item_name new_name a =
     (let item = u_item_name item_name in
      (case new_name of None \<Rightarrow> [] | Some nn \<Rightarrow> Menu_rename m item nn) @
      (if option_str a \<noteq> '''' then u_call m [Str ''Add'', to_arg item, Str '''', Str (option_str a)]
       else []) @
      (if thing a \<noteq> NoneArg then u_call m [Str ''Add'', to_arg item, thing a] else []) @
      (if enabled a = Some True then Menu_enable m item
       else if enabled a \<noteq> None then Menu_disable m item
       else []) @
      (if checked a = Some True then Menu_check m item
       else if checked a \<noteq> None then Menu_uncheck m item
       else []) @
      icon_calls m item a)"

definition u_insert_item :: "Menu \<Rightarrow> pyval \<Rightarrow> pyval \<Rightarrow> item_args \<Rightarrow> ahk_call list" where
  "u_insert_item m item_name new_name a =
     (let item = u_item_name item_name in
      u_call m [Str ''Insert'', to_arg item, to_arg new_name, thing a, Str (option_str a)] @
      (if truthy (to_arg new_name) then
         (if is_default a = Some True then Menu_set_default m new_name else []) @
         (if enabled a \<noteq> Some True then Menu_disable m new_name else []) @
         (if checked a = Some True then Menu_check m new_name else []) @
         icon_calls m new_name a
       else []))"

definition Menu_add :: "Menu \<Rightarrow> pyval \<Rightarrow> item_args \<Rightarrow> ahk_call list" where
  "Menu_add m item_name a = u_insert_item m PNone item_name (a\<lparr>submenu := None\<rparr>)"

definition Menu_add_separator :: "Menu \<Rightarrow> ahk_call list" where
  "Menu_add_separator m = u_insert_item m PNone PNone item_defaults"

definition Menu_add_submenu :: "Menu \<Rightarrow> pyval \<Rightarrow> Menu \<Rightarrow> item_args \<Rightarrow> ahk_call list" where
  "Menu_add_submenu m item_name sm a =
     u_insert_item m PNone item_name (a\<lparr>callback := None, submenu := Some sm, item_priority := None\<rparr>)"

definition Menu_insert :: "Menu \<Rightarrow> pyval \<Rightarrow> pyval \<Rightarrow> item_args \<Rightarrow> error + ahk_call list" where
  "Menu_insert m insert_before item_name a =
     (if insert_before = PNone then Inl (TypeError ''insert_before must not be None'')
      else Inr (u_insert_item m insert_before item_name (a\<lparr>submenu := None\<rparr>)))"

definition Menu_insert_separator :: "Menu \<Rightarrow> pyval \<Rightarrow> error + ahk_call list" where
  "Menu_insert_separator m insert_before =
     (if insert_before = PNone then Inl (TypeError ''insert_before must not be None'')
      else Inr (u_insert_item m insert_before PNone item_defaults))"

definition Menu_insert_submenu :: "Menu \<Rightarrow> pyval \<Rightarrow> pyval \<Rightarrow> Menu \<Rightarrow> item_args \<Rightarrow> error + ahk_call list" where
  "Menu_insert_submenu m insert_before item_name sm a =
     (if insert_before = PNone then Inl (TypeError ''insert_before must not be None'')
      else Inr (u_insert_item m insert_before item_name
                  (a\<lparr>callback := None, submenu := Some sm, item_priority := None\<rparr>)))"

definition Menu_update :: "Menu \<Rightarrow> pyval \<Rightarrow> pyval option \<Rightarrow> item_args \<Rightarrow> ahk_call list" where
  "Menu_update m item_name new_name a = u_update_item m item_name new_name a"

text \<open>
  The item named by a directive to a menu: the argument after the name of the menu and the
  command.
\<close>

fun item_of :: "ahk_call \<Rightarrow> arg option" where
  "item_of (Call c (m # cmd # i # rest)) = Some i"
| "item_of (Call c as) = None"

section \<open>Properties of the hotstring encoder\<close>

text \<open>The first character of a token tells which option it encodes.\<close>

lemma hd_case_tokens: "t \<in> set (case_tokens hs x) \<Longrightarrow> hd t = CHR ''C''"
  by (auto simp: case_tokens_def split: if_splits)

lemma hd_inside_tokens: "t \<in> set (inside_tokens hs) \<Longrightarrow> hd t = CHR ''?''"
  by (auto simp: inside_tokens_def split: if_splits)

lemma hd_end_char_tokens: "t \<in> set (end_char_tokens w om) \<Longrightarrow> hd t = CHR ''*'' \<or> hd t = CHR ''O''"
  by (auto simp: end_char_tokens_def split: if_splits)

lemma in_flag_tokens: "t \<in> set (flag_tokens x on off) \<Longrightarrow> t = on \<or> t = off"
  by (auto simp: flag_tokens_def split: if_splits)

lemma hd_key_delay_tokens: "t \<in> set (key_delay_tokens kd) \<Longrightarrow> hd t = CHR ''K''"
  by (auto simp: key_delay_tokens_def split: option.splits sum.splits)

lemma hd_priority_tokens: "t \<in> set (priority_tokens p) \<Longrightarrow> hd t = CHR ''P''"
  by (auto simp: priority_tokens_def split: option.splits)

lemma hd_mode_tokens: "t \<in> set (mode_tokens m) \<Longrightarrow> hd t = CHR ''S''"
  by (auto simp: mode_tokens_def split: sum.splits if_splits)

text \<open>
  C1: with \<^verbatim>\<open>wait_for_end_char=False\<close> the end-char tokens are the single token
  \<^verbatim>\<open>*\<close>, whatever \<^verbatim>\<open>omit_end_char\<close> is; the option list of the update has
  \<^verbatim>\<open>*\<close> between the word-boundary token and the backspacing tokens, and none of
  \<^verbatim>\<open>*0\<close>, \<^verbatim>\<open>O\<close>, \<^verbatim>\<open>O0\<close> occurs in it.
\<close>

theorem wait_false_emits_star:
  "end_char_tokens (Some False) omit = [''*''] \<and>
   update_options hs (a\<lparr>wait_for_end_char := Some False\<rparr>) =
     case_tokens hs (conform_to_case a) @ inside_tokens hs @ [''*''] @
     flag_tokens (backspacing a) ''B'' ''B0'' @ key_delay_tokens (key_delay a) @
     priority_tokens (priority a) @ flag_tokens (text_flag a) ''T'' ''T0'' @
     mode_tokens (mode a) @ flag_tokens (reset_recognizer a) ''Z'' ''Z0'' \<and>
   ''*0'' \<notin> set (update_options hs (a\<lparr>wait_for_end_char := Some False\<rparr>)) \<and>
   ''O'' \<notin> set (update_options hs (a\<lparr>wait_for_end_char := Some False\<rparr>)) \<and>
   ''O0'' \<notin> set (update_options hs (a\<lparr>wait_for_end_char := Some False\<rparr>))"
proof -
  let ?a = "a\<lparr>wait_for_end_char := Some False\<rparr>"
  have e: "end_char_tokens (Some False) omit = [''*'']"
    by (simp add: end_char_tokens_def)
  have u: "update_options hs ?a =
     case_tokens hs (conform_to_case a) @ inside_tokens hs @ [''*''] @
     flag_tokens (backspacing a) ''B'' ''B0'' @ key_delay_tokens (key_delay a) @
     priority_tokens (priority a) @ flag_tokens (text_flag a) ''T'' ''T0'' @
     mode_tokens (mode a) @ flag_tokens (reset_recognizer a) ''Z'' ''Z0''"
    by (simp add: update_options_def end_char_tokens_def)
  have n: "t \<notin> set (update_options hs ?a)" if "hd t = CHR ''*'' \<or> hd t = CHR ''O''" "t \<noteq> ''*''" for t
  proof
    assume "t \<in> set (update_options hs ?a)"
    then consider
        "t \<in> set (case_tokens hs (conform_to_case a))"
      | "t \<in> set (inside_tokens hs)"
      | "t = ''*''"
      | "t \<in> set (flag_tokens (backspacing a) ''B'' ''B0'')"
      | "t \<in> set (key_delay_tokens (key_delay a))"
      | "t \<in> set (priority_tokens (priority a))"
      | "t \<in> set (flag_tokens (text_flag a) ''T'' ''T0'')"
      | "t \<in> set (mode_tokens (mode a))"
      | "t \<in> set (flag_tokens (reset_recognizer a) ''Z'' ''Z0'')"
      by (auto simp: u)
    then show False
    proof cases
      case 1 then show ?thesis using that hd_case_tokens by fastforce
    next
      case 2 then show ?thesis using that hd_inside_tokens by fastforce
    next
      case 3 then show ?thesis using that by simp
    next
      case 4 then show ?thesis using that in_flag_tokens by fastforce
    next
      case 5 then show ?thesis using that hd_key_delay_tokens by fastforce
    next
      case 6 then show ?thesis using that hd_priority_tokens by fastforce
    next
      case 7 then show ?thesis using that in_flag_tokens by fastforce
    next
      case 8 then show ?thesis using that hd_mode_tokens by fastforce
    next
      case 9 then show ?thesis using that in_flag_tokens by fastforce
    qed
  qed
  show ?thesis
    using e u n [of "''*0''"] n [of "''O''"] n [of "''O0''"] by simp
qed

text \<open>
  The tokens of the list that start with \<^verbatim>\<open>*\<close> or \<^verbatim>\<open>O\<close> are the end-char tokens, in
  their order.
\<close>

lemma end_char_portion:
  "filter (\<lambda>t. hd t = CHR ''*'' \<or> hd t = CHR ''O'') (update_options hs a) =
     end_char_tokens (wait_for_end_char a) (omit_end_char a)"
proof -
  let ?P = "\<lambda>t. hd t = CHR ''*'' \<or> hd t = CHR ''O''"
  have 1: "filter ?P (case_tokens hs (conform_to_case a)) = []"
    using hd_case_tokens by (fastforce simp: filter_empty_conv)
  have 2: "filter ?P (inside_tokens hs) = []"
    using hd_inside_tokens by (fastforce simp: filter_empty_conv)
  have 3: "filter ?P (end_char_tokens (wait_for_end_char a) (omit_end_char a)) =
      end_char_tokens (wait_for_end_char a) (omit_end_char a)"
    using hd_end_char_tokens by (simp add: filter_id_conv)
  have 4: "filter ?P (flag_tokens (backspacing a) ''B'' ''B0'') = []"
    using in_flag_tokens by (fastforce simp: filter_empty_conv)
  have 5: "filter ?P (key_delay_tokens (key_delay a)) = []"
    using hd_key_delay_tokens by (fastforce simp: filter_empty_conv)
  have 6: "filter ?P (priority_tokens (priority a)) = []"
    using hd_priority_tokens by (fastforce simp: filter_empty_conv)
  have 7: "filter ?P (flag_tokens (text_flag a) ''T'' ''T0'') = []"
    using in_flag_tokens by (fastforce simp: filter_empty_conv)
  have 8: "filter ?P (mode_tokens (mode a)) = []"
    using hd_mode_tokens by (fastforce simp: filter_empty_conv)
  have 9: "filter ?P (flag_tokens (reset_recognizer a) ''Z'' ''Z0'') = []"
    using in_flag_tokens by (fastforce simp: filter_empty_conv)
  show ?thesis
    unfolding update_options_def filter_append 1 2 3 4 5 6 7 8 9 by simp
qed

text \<open>
  Counterexample to C2 as stated: with \<^verbatim>\<open>wait_for_end_char\<close> unset and
  \<^verbatim>\<open>omit_end_char=True\<close> the end-char tokens are \<^verbatim>\<open>*0\<close> and \<^verbatim>\<open>O\<close>, not
  \<^verbatim>\<open>O\<close> alone; the update of the hotstring \<^verbatim>\<open>btw\<close> returns after the directive with
  \<^verbatim>\<open>:?0*0O:btw\<close>.
\<close>

theorem unset_wait_omit_not_O_alone:
  "end_char_tokens None (Some True) \<noteq> [''O''] \<and>
   update_options (new_Hotstring ''btw'' False False BaseHotkeyContext)
     (no_args\<lparr>omit_end_char := Some True\<rparr>) = [''?0'', ''*0'', ''O''] \<and>
   Hotstring_update (new_Hotstring ''btw'' False False BaseHotkeyContext)
     (no_args\<lparr>omit_end_char := Some True\<rparr>) =
   (Inr (), [Call ''Hotstring'' [Str '':?0*0O:btw'', Str '''']])"
  by code_simp

text \<open>
  C2, amended: \<^verbatim>\<open>omit_end_char=True\<close> emits \<^verbatim>\<open>*0\<close> followed by \<^verbatim>\<open>O\<close> both when
  \<^verbatim>\<open>wait_for_end_char\<close> is unset and when it is \<^verbatim>\<open>True\<close>, and
  \<^verbatim>\<open>wait_for_end_char=True\<close> with \<^verbatim>\<open>omit_end_char=False\<close> emits \<^verbatim>\<open>*0\<close> followed by
  \<^verbatim>\<open>O0\<close>. In each case the list of options that \<^verbatim>\<open>update\<close> builds has these two tokens
  between the word-boundary token and the backspacing tokens, and they are the only tokens
  of the list that start with \<^verbatim>\<open>*\<close> or \<^verbatim>\<open>O\<close>.
\<close>

theorem omit_end_char_branches:
  "update_options hs (a\<lparr>wait_for_end_char := None, omit_end_char := Some True\<rparr>) =
     case_tokens hs (conform_to_case a) @ inside_tokens hs @ [''*0'', ''O''] @
     flag_tokens (backspacing a) ''B'' ''B0'' @ key_delay_tokens (key_delay a) @
     priority_tokens (priority a) @ flag_tokens (text_flag a) ''T'' ''T0'' @
     mode_tokens (mode a) @ flag_tokens (reset_recognizer a) ''Z'' ''Z0'' \<and>
   update_options hs (a\<lparr>wait_for_end_char := Some True, omit_end_char := Some True\<rparr>) =
     case_tokens hs (conform_to_case a) @ inside_tokens hs @ [''*0'', ''O''] @
     flag_tokens (backspacing a) ''B'' ''B0'' @ key_delay_tokens (key_delay a) @
     priority_tokens (priority a) @ flag_tokens (text_flag a) ''T'' ''T0'' @
     mode_tokens (mode a) @ flag_tokens (reset_recognizer a) ''Z'' ''Z0'' \<and>
   update_options hs (a\<lparr>wait_for_end_char := Some True, omit_end_char := Some False\<rparr>) =
     case_tokens hs (conform_to_case a) @ inside_tokens hs @ [''*0'', ''O0''] @
     flag_tokens (backspacing a) ''B'' ''B0'' @ key_delay_tokens (key_delay a) @
     priority_tokens (priority a) @ flag_tokens (text_flag a) ''T'' ''T0'' @
     mode_tokens (mode a) @ flag_tokens (reset_recognizer a) ''Z'' ''Z0'' \<and>
   filter (\<lambda>t. hd t = CHR ''*'' \<or> hd t = CHR ''O'')
     (update_options hs (a\<lparr>wait_for_end_char := None, omit_end_char := Some True\<rparr>)) =
     [''*0'', ''O''] \<and>
   filter (\<lambda>t. hd t = CHR ''*'' \<or> hd t = CHR ''O'')
     (update_options hs (a\<lparr>wait_for_end_char := Some True, omit_end_char := Some True\<rparr>)) =
     [''*0'', ''O''] \<and>
   filter (\<lambda>t. hd t = CHR ''*'' \<or> hd t = CHR ''O'')
     (update_options hs (a\<lparr>wait_for_end_char := Some True, omit_end_char := Some False\<rparr>)) =
     [''*0'', ''O0'']"
proof -
  have f: "filter (\<lambda>t. hd t = CHR ''*'' \<or> hd t = CHR ''O'')
      (update_options hs (a\<lparr>wait_for_end_char := w, omit_end_char := om\<rparr>)) =
      end_char_tokens w om" for w om
    using end_char_portion [of hs "a\<lparr>wait_for_end_char := w, omit_end_char := om\<rparr>"] by simp
  show ?thesis
  proof (intro conjI)
    show "update_options hs (a\<lparr>wait_for_end_char := None, omit_end_char := Some True\<rparr>) =
       case_tokens hs (conform_to_case a) @ inside_tokens hs @ [''*0'', ''O''] @
       flag_tokens (backspacing a) ''B'' ''B0'' @ key_delay_tokens (key_delay a) @
       priority_tokens (priority a) @ flag_tokens (text_flag a) ''T'' ''T0'' @
       mode_tokens (mode a) @ flag_tokens (reset_recognizer a) ''Z'' ''Z0''"
      by (simp add: update_options_def end_char_tokens_def)
    show "update_options hs (a\<lparr>wait_for_end_char := Some True, omit_end_char := Some True\<rparr>) =
       case_tokens hs (conform_to_case a) @ inside_tokens hs @ [''*0'', ''O''] @
       flag_tokens (backspacing a) ''B'' ''B0'' @ key_delay_tokens (key_delay a) @
       priority_tokens (priority a) @ flag_tokens (text_flag a) ''T'' ''T0'' @
       mode_tokens (mode a) @ flag_tokens (reset_recognizer a) ''Z'' ''Z0''"
      by (simp add: update_options_def end_char_tokens_def)
    show "update_options hs (a\<lparr>wait_for_end_char := Some True, omit_end_char := Some False\<rparr>) =
       case_tokens hs (conform_to_case a) @ inside_tokens hs @ [''*0'', ''O0''] @
       flag_tokens (backspacing a) ''B'' ''B0'' @ key_delay_tokens (key_delay a) @
       priority_tokens (priority a) @ flag_tokens (text_flag a) ''T'' ''T0'' @
       mode_tokens (mode a) @ flag_tokens (reset_recognizer a) ''Z'' ''Z0''"
      by (simp add: update_options_def end_char_tokens_def)
    show "filter (\<lambda>t. hd t = CHR ''*'' \<or> hd t = CHR ''O'')
       (update_options hs (a\<lparr>wait_for_end_char := None, omit_end_char := Some True\<rparr>)) =
       [''*0'', ''O'']"
      unfolding f by (simp add: end_char_tokens_def)
    show "filter (\<lambda>t. hd t = CHR ''*'' \<or> hd t = CHR ''O'')
       (update_options hs (a\<lparr>wait_for_end_char := Some True, omit_end_char := Some True\<rparr>)) =
       [''*0'', ''O'']"
      unfolding f by (simp add: end_char_tokens_def)
    show "filter (\<lambda>t. hd t = CHR ''*'' \<or> hd t = CHR ''O'')
       (update_options hs (a\<lparr>wait_for_end_char := Some True, omit_end_char := Some False\<rparr>)) =
       [''*0'', ''O0'']"
      unfolding f by (simp add: end_char_tokens_def)
  qed
qed

lemma case_sensitive_new: "case_sensitive (new_Hotstring s True riw c)"
  by (simp add: new_Hotstring_def post_init_def)

lemma not_case_token:
  assumes "case_sensitive hs" and "t \<in> set (update_options hs a)"
  shows "t = ''C'' \<or> hd t \<noteq> CHR ''C''"
proof -
  from assms(2) consider
      "t \<in> set (case_tokens hs (conform_to_case a))"
    | "t \<in> set (inside_tokens hs)"
    | "t \<in> set (end_char_tokens (wait_for_end_char a) (omit_end_char a))"
    | "t \<in> set (flag_tokens (backspacing a) ''B'' ''B0'')"
    | "t \<in> set (key_delay_tokens (key_delay a))"
    | "t \<in> set (priority_tokens (priority a))"
    | "t \<in> set (flag_tokens (text_flag a) ''T'' ''T0'')"
    | "t \<in> set (mode_tokens (mode a))"
    | "t \<in> set (flag_tokens (reset_recognizer a) ''Z'' ''Z0'')"
    by (auto simp: update_options_def)
  then show ?thesis
  proof cases
    case 1 with assms(1) show ?thesis by (simp add: case_tokens_def)
  next
    case 2 then show ?thesis using hd_inside_tokens by fastforce
  next
    case 3 then show ?thesis using hd_end_char_tokens by fastforce
  next
    case 4 then show ?thesis using in_flag_tokens by fastforce
  next
    case 5 then show ?thesis using hd_key_delay_tokens by fastforce
  next
    case 6 then show ?thesis using hd_priority_tokens by fastforce
  next
    case 7 then show ?thesis using in_flag_tokens by fastforce
  next
    case 8 then show ?thesis using hd_mode_tokens by fastforce
  next
    case 9 then show ?thesis using in_flag_tokens by fastforce
  qed
qed

text \<open>
  C3: for a hotstring constructed with \<^verbatim>\<open>case_sensitive=True\<close>, every update emits the
  token \<^verbatim>\<open>C\<close> first, followed by the \<^verbatim>\<open>?\<close> of the next token; neither
  \<^verbatim>\<open>C0\<close> nor \<^verbatim>\<open>C1\<close> is among the tokens, and the option list and the directives
  issued do not depend on \<^verbatim>\<open>conform_to_case\<close>.
\<close>

theorem case_sensitive_ignores_conform:
  "hd (update_options (new_Hotstring s True riw c) a) = ''C'' \<and>
   ''C0'' \<notin> set (update_options (new_Hotstring s True riw c) a) \<and>
   ''C1'' \<notin> set (update_options (new_Hotstring s True riw c) a) \<and>
   take 2 (concat (update_options (new_Hotstring s True riw c) a)) = ''C?'' \<and>
   update_options (new_Hotstring s True riw c) (a\<lparr>conform_to_case := x\<rparr>) =
     update_options (new_Hotstring s True riw c) a \<and>
   Hotstring_update (new_Hotstring s True riw c) (a\<lparr>conform_to_case := x\<rparr>) =
     Hotstring_update (new_Hotstring s True riw c) a"
proof -
  let ?hs = "new_Hotstring s True riw c"
  have cs: "case_sensitive ?hs"
    by (rule case_sensitive_new)
  have h: "hd (update_options ?hs a) = ''C''"
    using cs by (simp add: update_options_def case_tokens_def)
  have t: "take 2 (concat (update_options ?hs a)) = ''C?''"
    using cs by (simp add: update_options_def case_tokens_def inside_tokens_def)
  have n0: "''C0'' \<notin> set (update_options ?hs a)"
    using not_case_token [OF cs, of "''C0''" a] by auto
  have n1: "''C1'' \<notin> set (update_options ?hs a)"
    using not_case_token [OF cs, of "''C1''" a] by auto
  have u: "update_options ?hs (a\<lparr>conform_to_case := x\<rparr>) = update_options ?hs a"
    using cs by (simp add: update_options_def case_tokens_def)
  have "Hotstring_update ?hs (a\<lparr>conform_to_case := x\<rparr>) = Hotstring_update ?hs a"
    by (simp add: Hotstring_update_def update_raises_def u split: option.splits)
  with h t n0 n1 u show ?thesis
    by simp
qed

lemma lower_char_idem: "lower_char (lower_char c) = lower_char c"
proof -
  define n where "n = (of_char c :: nat)"
  show ?thesis
  proof (cases "(65 \<le> n \<and> n \<le> 90) \<or> (192 \<le> n \<and> n \<le> 222 \<and> n \<noteq> 215)")
    case True
    then have l: "lower_char c = char_of (n + 32)"
      unfolding lower_char_def Let_def n_def by simp
    from True have "(n + 32) mod 256 = n + 32"
      by auto
    then have o: "(of_char (char_of (n + 32) :: char) :: nat) = n + 32"
      by simp
    from True have "\<not> ((65 \<le> n + 32 \<and> n + 32 \<le> 90) \<or> (192 \<le> n + 32 \<and> n + 32 \<le> 222 \<and> n + 32 \<noteq> 215))"
      by auto
    with o have "lower_char (char_of (n + 32)) = char_of (n + 32)"
      unfolding lower_char_def Let_def by simp
    with l show ?thesis
      by simp
  next
    case False
    then have "lower_char c = c"
      unfolding lower_char_def Let_def n_def by auto
    then show ?thesis
      by simp
  qed
qed

lemma lower_idem: "lower (lower s) = lower s"
  by (simp add: lower_def lower_char_idem)

text \<open>
  C4: a hotstring constructed with \<^verbatim>\<open>case_sensitive=False\<close> stores the lower-cased
  trigger string, which lower-casing leaves as it is; a hotstring constructed with
  \<^verbatim>\<open>case_sensitive=True\<close> stores the trigger string unchanged. So the trigger
  \<^verbatim>\<open>BtW\<close> is stored as \<^verbatim>\<open>btw\<close> or as it is, and the trigger of the two characters
  U+00C0 and \<^verbatim>\<open>B\<close> as U+00E0 and \<^verbatim>\<open>b\<close> or as it is.
\<close>

theorem post_init_case_folding:
  "string (new_Hotstring s False riw c) = lower s \<and>
   lower (string (new_Hotstring s False riw c)) = string (new_Hotstring s False riw c) \<and>
   string (new_Hotstring s True riw c) = s \<and>
   string (new_Hotstring ''BtW'' False riw c) = ''btw'' \<and>
   string (new_Hotstring ''BtW'' True riw c) = ''BtW'' \<and>
   string (new_Hotstring [CHR 0xC0, CHR ''B''] False riw c) = [CHR 0xE0, CHR ''b''] \<and>
   string (new_Hotstring [CHR 0xC0, CHR ''B''] True riw c) = [CHR 0xC0, CHR ''B'']"
proof -
  have l: "lower ''BtW'' = ''btw''" "lower [CHR 0xC0, CHR ''B''] = [CHR 0xE0, CHR ''b'']"
    by code_simp+
  have f: "string (new_Hotstring s False riw c) = lower s" for s
    by (simp add: new_Hotstring_def post_init_def)
  have t: "string (new_Hotstring s True riw c) = s" for s
    by (simp add: new_Hotstring_def post_init_def)
  show ?thesis
    unfolding f t l lower_idem by simp
qed

lemma round_double_sign:
  assumes "round_double s M E = Finite s' q e" and "0 \<le> M"
  shows "s' = s \<and> 0 \<le> q"
proof -
  have "0 \<le> M div 2 ^ (bitlen M - 53)"
    using assms(2) by (simp add: pos_imp_zdiv_nonneg_iff)
  with assms(1) show ?thesis
    by (auto simp: round_double_def Let_def split: if_splits)
qed

lemma round_double_not_NaN: "round_double s M E \<noteq> NaN"
  by (simp add: round_double_def Let_def)

text \<open>
  Counterexample to C5 as stated: the key delay \<open>2 ^ 1023\<close> seconds is a finite float
  above zero, its product with 1000 is infinite, and \<^verbatim>\<open>int\<close> raises: no token is
  encoded and no directive is issued.
\<close>

theorem key_delay_overflow:
  "positive (FloatN (Finite False 4503599627370496 971) ''8.98846567431158e+307'') \<and>
   is_double (Finite False 4503599627370496 971) \<and>
   Hotstring_update (new_Hotstring ''btw'' False False BaseHotkeyContext)
     (no_args\<lparr>key_delay := Some (FloatN (Finite False 4503599627370496 971) ''8.98846567431158e+307'')\<rparr>) =
   (Inl (OverflowError ''cannot convert float infinity to integer''), [])"
  by code_simp

text \<open>
  C5, amended: in \<^verbatim>\<open>Hotstring.update\<close> a key delay above zero whose product with 1000 is
  finite is encoded as the token \<^verbatim>\<open>K\<close> followed by that product truncated to an integer:
  for an integer \<open>i\<close> that is \<open>i * 1000\<close>, and for a float it is the integer part of the
  rounded product \<open>q * 2 ^ e\<close>. A key delay that is not above zero is encoded as \<^verbatim>\<open>K\<close>
  followed by the delay as Python prints it, with no scaling, and no key delay gives no
  token: the token sits between the backspacing and the priority tokens, and without a
  key delay no token of the list starts with \<^verbatim>\<open>K\<close>. A key delay above zero whose
  product with 1000 is infinite raises \<^verbatim>\<open>OverflowError\<close> before any directive is issued.
\<close>

theorem key_delay_scaling:
  "(0 < i \<longrightarrow> key_delay_tokens (Some (IntN i)) = [''K'' @ str_int (i * 1000)]) \<and>
   (i \<le> 0 \<longrightarrow> key_delay_tokens (Some (IntN i)) = [''K'' @ str_int i]) \<and>
   (positive (FloatN x t) \<and> times_1000 x = Finite s q e \<longrightarrow>
      key_delay_tokens (Some (FloatN x t)) =
        [''K'' @ str_int (if 0 \<le> e then q * 2 ^ nat e else q div 2 ^ nat (- e))] \<and>
      \<not> s \<and> 0 \<le> q \<and> key_delay_error (Some (FloatN x t)) = None) \<and>
   (positive (FloatN x t) \<and> times_1000 x = Infinite s \<longrightarrow>
      Hotstring_update hs (a\<lparr>key_delay := Some (FloatN x t)\<rparr>) =
        (Inl (OverflowError ''cannot convert float infinity to integer''), [])) \<and>
   (positive (FloatN x t) \<longrightarrow> times_1000 x \<noteq> NaN) \<and>
   (\<not> positive (FloatN x t) \<longrightarrow> key_delay_tokens (Some (FloatN x t)) = [''K'' @ t]) \<and>
   key_delay_tokens None = [] \<and>
   update_options hs (a\<lparr>key_delay := kd\<rparr>) =
     case_tokens hs (conform_to_case a) @ inside_tokens hs @
     end_char_tokens (wait_for_end_char a) (omit_end_char a) @
     flag_tokens (backspacing a) ''B'' ''B0'' @ key_delay_tokens kd @
     priority_tokens (priority a) @ flag_tokens (text_flag a) ''T'' ''T0'' @
     mode_tokens (mode a) @ flag_tokens (reset_recognizer a) ''Z'' ''Z0'' \<and>
   (\<forall>t \<in> set (update_options hs (a\<lparr>key_delay := None\<rparr>)). hd t \<noteq> CHR ''K'')"
proof -
  have i1: "key_delay_tokens (Some (IntN i)) = [''K'' @ str_int (i * 1000)]" if "0 < i"
    using that by (simp add: key_delay_tokens_def scale_key_delay_def)
  have i2: "key_delay_tokens (Some (IntN i)) = [''K'' @ str_int i]" if "i \<le> 0"
    using that by (simp add: key_delay_tokens_def scale_key_delay_def)
  have f1: "key_delay_tokens (Some (FloatN x t)) =
        [''K'' @ str_int (if 0 \<le> e then q * 2 ^ nat e else q div 2 ^ nat (- e))] \<and>
      \<not> s \<and> 0 \<le> q \<and> key_delay_error (Some (FloatN x t)) = None"
    if p: "positive (FloatN x t)" and r: "times_1000 x = Finite s q e"
  proof -
    from p r obtain m e0 where x: "x = Finite False m e0" and m: "0 < m"
      by (cases x) auto
    from r x have "round_double False (m * 1000) e0 = Finite s q e"
      by simp
    with m have sq: "s = False \<and> 0 \<le> q"
      using round_double_sign [of False "m * 1000" e0 s q e] by simp
    then have "int_of_float (Finite s q e) =
        Inr (if 0 \<le> e then q * 2 ^ nat e else q div 2 ^ nat (- e))"
      by (simp add: Let_def)
    with p r sq show ?thesis
      by (simp add: key_delay_tokens_def key_delay_error_def scale_key_delay_def)
  qed
  have f2: "Hotstring_update hs (a\<lparr>key_delay := Some (FloatN x t)\<rparr>) =
        (Inl (OverflowError ''cannot convert float infinity to integer''), [])"
    if "positive (FloatN x t)" and "times_1000 x = Infinite s"
    using that
    by (simp add: Hotstring_update_def update_raises_def key_delay_error_def scale_key_delay_def)
  have f3: "times_1000 x \<noteq> NaN" if "positive (FloatN x t)"
    using that by (cases x) (simp_all add: round_double_not_NaN)
  have f4: "key_delay_tokens (Some (FloatN x t)) = [''K'' @ t]" if "\<not> positive (FloatN x t)"
    using that by (simp add: key_delay_tokens_def scale_key_delay_def)
  have n: "key_delay_tokens None = []"
    by (simp add: key_delay_tokens_def)
  let ?a = "a\<lparr>key_delay := None\<rparr>"
  have k: "hd t \<noteq> CHR ''K''" if "t \<in> set (update_options hs ?a)" for t
  proof -
    from that consider
        "t \<in> set (case_tokens hs (conform_to_case a))"
      | "t \<in> set (inside_tokens hs)"
      | "t \<in> set (end_char_tokens (wait_for_end_char a) (omit_end_char a))"
      | "t \<in> set (flag_tokens (backspacing a) ''B'' ''B0'')"
      | "t \<in> set (priority_tokens (priority a))"
      | "t \<in> set (flag_tokens (text_flag a) ''T'' ''T0'')"
      | "t \<in> set (mode_tokens (mode a))"
      | "t \<in> set (flag_tokens (reset_recognizer a) ''Z'' ''Z0'')"
      by (auto simp: update_options_def n)
    then show ?thesis
    proof cases
      case 1 then show ?thesis using hd_case_tokens by fastforce
    next
      case 2 then show ?thesis using hd_inside_tokens by fastforce
    next
      case 3 then show ?thesis using hd_end_char_tokens by fastforce
    next
      case 4 then show ?thesis using in_flag_tokens by fastforce
    next
      case 5 then show ?thesis using hd_priority_tokens by fastforce
    next
      case 6 then show ?thesis using in_flag_tokens by fastforce
    next
      case 7 then show ?thesis using hd_mode_tokens by fastforce
    next
      case 8 then show ?thesis using in_flag_tokens by fastforce
    qed
  qed
  have u: "update_options hs (a\<lparr>key_delay := kd\<rparr>) =
     case_tokens hs (conform_to_case a) @ inside_tokens hs @
     end_char_tokens (wait_for_end_char a) (omit_end_char a) @
     flag_tokens (backspacing a) ''B'' ''B0'' @ key_delay_tokens kd @
     priority_tokens (priority a) @ flag_tokens (text_flag a) ''T'' ''T0'' @
     mode_tokens (mode a) @ flag_tokens (reset_recognizer a) ''Z'' ''Z0''"
    by (simp add: update_options_def)
  show ?thesis
    using i1 i2 f1 f2 f3 f4 n k u by blast
qed

theorem key_delay_scaling_witness:
  "(0::int) < 2 \<and> key_delay_tokens (Some (IntN 2)) = [''K2000''] \<and>
   (-1::int) \<le> 0 \<and> key_delay_tokens (Some (IntN (-1))) = [''K-1''] \<and>
   positive (FloatN (Finite False 4508103226997866 (-52)) ''1.001'') \<and>
   times_1000 (Finite False 4508103226997866 (-52)) = Finite False 8804889115230207 (-43) \<and>
   key_delay_tokens (Some (FloatN (Finite False 4508103226997866 (-52)) ''1.001'')) = [''K1000''] \<and>
   positive (FloatN (Finite False 4503599627370496 971) ''8.98846567431158e+307'') \<and>
   times_1000 (Finite False 4503599627370496 971) = Infinite False \<and>
   \<not> positive (FloatN (Finite True 1 (-1)) ''-0.5'') \<and>
   key_delay_tokens (Some (FloatN (Finite True 1 (-1)) ''-0.5'')) = [''K-0.5''] \<and>
   \<not> positive (FloatN (Finite False 0 0) ''0.0'') \<and>
   key_delay_tokens (Some (FloatN (Finite False 0 0) ''0.0'')) = [''K0.0''] \<and>
   update_options (new_Hotstring ''btw'' False False BaseHotkeyContext) no_args = [''?0''] \<and>
   hd ''?0'' \<noteq> CHR ''K''"
proof -
  let ?hs = "new_Hotstring ''btw'' False False BaseHotkeyContext"
  have s: "str_int (2 * 1000) = ''2000''" "str_int (-1) = ''-1''"
    "str_int (8804889115230207 div 2 ^ nat (- (-43))) = ''1000''"
    by code_simp+
  have r: "times_1000 (Finite False 4508103226997866 (-52)) = Finite False 8804889115230207 (-43)"
    "times_1000 (Finite False 4503599627370496 971) = Infinite False"
    by code_simp+
  have u: "update_options ?hs (no_args\<lparr>key_delay := None\<rparr>) = [''?0'']"
    by code_simp
  have n: "no_args\<lparr>key_delay := None\<rparr> = no_args"
    by (simp add: no_args_def)
  note w1 = key_delay_scaling [where i = 2 and x = "Finite False 4508103226997866 (-52)"
      and t = "''1.001''" and s = False and q = 8804889115230207 and e = "-43"
      and hs = ?hs and a = no_args and kd = None]
  note w2 = key_delay_scaling [where i = "-1" and x = "Finite False 4503599627370496 971"
      and t = "''8.98846567431158e+307''" and s = False and q = 0 and e = 0
      and hs = ?hs and a = no_args and kd = None]
  note w3 = key_delay_scaling [where i = 0 and x = "Finite True 1 (-1)"
      and t = "''-0.5''" and s = False and q = 0 and e = 0
      and hs = ?hs and a = no_args and kd = None]
  note w4 = key_delay_scaling [where i = 0 and x = "Finite False 0 0"
      and t = "''0.0''" and s = False and q = 0 and e = 0
      and hs = ?hs and a = no_args and kd = None]
  have a1: "key_delay_tokens (Some (IntN 2)) = [''K2000'']"
    using w1 s by simp
  have a2: "key_delay_tokens (Some (IntN (-1))) = [''K-1'']"
    using w2 s by simp
  have a3: "key_delay_tokens (Some (FloatN (Finite False 4508103226997866 (-52)) ''1.001'')) = [''K1000'']"
    using w1 r s by simp
  have a4: "key_delay_tokens (Some (FloatN (Finite True 1 (-1)) ''-0.5'')) = [''K-0.5'']"
    using w3 by simp
  have a5: "key_delay_tokens (Some (FloatN (Finite False 0 0) ''0.0'')) = [''K0.0'']"
    using w4 by simp
  show ?thesis
    using a1 a2 a3 a4 a5 r u n by simp
qed

text \<open>
  Counterexample to C8 as stated: the mode \<^verbatim>\<open>1\<close> is neither \<^verbatim>\<open>None\<close> nor one of the
  three modes, and \<^verbatim>\<open>update\<close> raises \<^verbatim>\<open>AttributeError\<close> at \<^verbatim>\<open>mode.lower()\<close>, with no
  directive issued (the message is kept without its quotation marks).
\<close>

theorem integer_mode_raises:
  "Hotstring_update (new_Hotstring ''btw'' False False BaseHotkeyContext) (no_args\<lparr>mode := PInt 1\<rparr>) =
     (Inl (AttributeError ''int object has no attribute lower''), [])"
  by code_simp

text \<open>
  C8, amended: in \<^verbatim>\<open>Hotstring.update\<close> a string mode whose lower-case form is
  \<^verbatim>\<open>input\<close>, \<^verbatim>\<open>play\<close> or \<^verbatim>\<open>event\<close> puts the token \<^verbatim>\<open>SI\<close>, \<^verbatim>\<open>SP\<close> or \<^verbatim>\<open>SE\<close>
  into the list of options, between the text tokens and the reset tokens. Any other string
  mode puts no token there, and no token of the list starts with \<^verbatim>\<open>S\<close>. A string mode
  never makes the update raise: unless the key delay raises, the update returns after the
  \<^verbatim>\<open>Hotstring\<close> directive with the option string. A mode that is an integer, which has no
  method \<^verbatim>\<open>lower\<close>, makes the update raise \<^verbatim>\<open>AttributeError\<close> before any directive is
  issued.
\<close>

theorem mode_token_table:
  "(lower m = ''input'' \<longrightarrow>
      update_options hs (a\<lparr>mode := PStr m\<rparr>) =
        case_tokens hs (conform_to_case a) @ inside_tokens hs @
        end_char_tokens (wait_for_end_char a) (omit_end_char a) @
        flag_tokens (backspacing a) ''B'' ''B0'' @ key_delay_tokens (key_delay a) @
        priority_tokens (priority a) @ flag_tokens (text_flag a) ''T'' ''T0'' @
        [''SI''] @ flag_tokens (reset_recognizer a) ''Z'' ''Z0'') \<and>
   (lower m = ''play'' \<longrightarrow>
      update_options hs (a\<lparr>mode := PStr m\<rparr>) =
        case_tokens hs (conform_to_case a) @ inside_tokens hs @
        end_char_tokens (wait_for_end_char a) (omit_end_char a) @
        flag_tokens (backspacing a) ''B'' ''B0'' @ key_delay_tokens (key_delay a) @
        priority_tokens (priority a) @ flag_tokens (text_flag a) ''T'' ''T0'' @
        [''SP''] @ flag_tokens (reset_recognizer a) ''Z'' ''Z0'') \<and>
   (lower m = ''event'' \<longrightarrow>
      update_options hs (a\<lparr>mode := PStr m\<rparr>) =
        case_tokens hs (conform_to_case a) @ inside_tokens hs @
        end_char_tokens (wait_for_end_char a) (omit_end_char a) @
        flag_tokens (backspacing a) ''B'' ''B0'' @ key_delay_tokens (key_delay a) @
        priority_tokens (priority a) @ flag_tokens (text_flag a) ''T'' ''T0'' @
        [''SE''] @ flag_tokens (reset_recognizer a) ''Z'' ''Z0'') \<and>
   (lower m \<notin> {''input'', ''play'', ''event''} \<longrightarrow>
      update_options hs (a\<lparr>mode := PStr m\<rparr>) =
        case_tokens hs (conform_to_case a) @ inside_tokens hs @
        end_char_tokens (wait_for_end_char a) (omit_end_char a) @
        flag_tokens (backspacing a) ''B'' ''B0'' @ key_delay_tokens (key_delay a) @
        priority_tokens (priority a) @ flag_tokens (text_flag a) ''T'' ''T0'' @
        flag_tokens (reset_recognizer a) ''Z'' ''Z0'' \<and>
      (\<forall>t \<in> set (update_options hs (a\<lparr>mode := PStr m\<rparr>)). hd t \<noteq> CHR ''S'')) \<and>
   (key_delay_error (key_delay a) = None \<longrightarrow>
      Hotstring_update hs (a\<lparr>mode := PStr m\<rparr>) =
        (Inr (),
         u_manager (hs_context hs)
           [Call ''Hotstring''
              [Str ('':'' @ concat (update_options hs (a\<lparr>mode := PStr m\<rparr>)) @ '':'' @ string hs),
               replacement_arg (replacement a)]]) \<and>
      Hotstring_update hs (a\<lparr>mode := PInt n\<rparr>) =
        (Inl (AttributeError ''int object has no attribute lower''), []))"
proof -
  let ?pre = "case_tokens hs (conform_to_case a) @ inside_tokens hs @
        end_char_tokens (wait_for_end_char a) (omit_end_char a) @
        flag_tokens (backspacing a) ''B'' ''B0'' @ key_delay_tokens (key_delay a) @
        priority_tokens (priority a) @ flag_tokens (text_flag a) ''T'' ''T0''"
  have u: "update_options hs (a\<lparr>mode := PStr m\<rparr>) =
      ?pre @ mode_tokens (PStr m) @ flag_tokens (reset_recognizer a) ''Z'' ''Z0''"
    by (simp add: update_options_def)
  have 1: "mode_tokens (PStr m) = [''SI'']" if "lower m = ''input''"
    using that by (simp add: mode_tokens_def INPUT_def)
  have 2: "mode_tokens (PStr m) = [''SP'']" if "lower m = ''play''"
    using that by (simp add: mode_tokens_def INPUT_def PLAY_def)
  have 3: "mode_tokens (PStr m) = [''SE'']" if "lower m = ''event''"
    using that by (simp add: mode_tokens_def INPUT_def PLAY_def EVENT_def)
  have 4: "mode_tokens (PStr m) = []" if "lower m \<notin> {''input'', ''play'', ''event''}"
    using that by (simp add: mode_tokens_def INPUT_def PLAY_def EVENT_def)
  have 5: "hd t \<noteq> CHR ''S''"
    if o: "lower m \<notin> {''input'', ''play'', ''event''}"
      and t: "t \<in> set (update_options hs (a\<lparr>mode := PStr m\<rparr>))" for t
  proof -
    from t consider
        "t \<in> set (case_tokens hs (conform_to_case a))"
      | "t \<in> set (inside_tokens hs)"
      | "t \<in> set (end_char_tokens (wait_for_end_char a) (omit_end_char a))"
      | "t \<in> set (flag_tokens (backspacing a) ''B'' ''B0'')"
      | "t \<in> set (key_delay_tokens (key_delay a))"
      | "t \<in> set (priority_tokens (priority a))"
      | "t \<in> set (flag_tokens (text_flag a) ''T'' ''T0'')"
      | "t \<in> set (flag_tokens (reset_recognizer a) ''Z'' ''Z0'')"
      by (auto simp: u 4 [OF o])
    then show ?thesis
    proof cases
      case 1 then show ?thesis using hd_case_tokens by fastforce
    next
      case 2 then show ?thesis using hd_inside_tokens by fastforce
    next
      case 3 then show ?thesis using hd_end_char_tokens by fastforce
    next
      case 4 then show ?thesis using in_flag_tokens by fastforce
    next
      case 5 then show ?thesis using hd_key_delay_tokens by fastforce
    next
      case 6 then show ?thesis using hd_priority_tokens by fastforce
    next
      case 7 then show ?thesis using in_flag_tokens by fastforce
    next
      case 8 then show ?thesis using in_flag_tokens by fastforce
    qed
  qed
  have 6: "Hotstring_update hs (a\<lparr>mode := PStr m\<rparr>) =
        (Inr (),
         u_manager (hs_context hs)
           [Call ''Hotstring''
              [Str ('':'' @ concat (update_options hs (a\<lparr>mode := PStr m\<rparr>)) @ '':'' @ string hs),
               replacement_arg (replacement a)]])"
    if "key_delay_error (key_delay a) = None"
    using that by (simp add: Hotstring_update_def update_raises_def mode_error_def)
  have 7: "Hotstring_update hs (a\<lparr>mode := PInt n\<rparr>) =
        (Inl (AttributeError ''int object has no attribute lower''), [])"
    if "key_delay_error (key_delay a) = None"
    using that by (simp add: Hotstring_update_def update_raises_def mode_error_def)
  show ?thesis
    using 1 2 3 4 5 6 7 unfolding u by simp
qed

theorem mode_token_table_witness:
  "lower ''Input'' = ''input'' \<and>
   update_options (new_Hotstring ''btw'' False False BaseHotkeyContext)
     (no_args\<lparr>mode := PStr ''Input''\<rparr>) = [''?0'', ''SI''] \<and>
   lower ''PLAY'' = ''play'' \<and>
   update_options (new_Hotstring ''btw'' False False BaseHotkeyContext)
     (no_args\<lparr>mode := PStr ''PLAY''\<rparr>) = [''?0'', ''SP''] \<and>
   lower ''event'' = ''event'' \<and>
   update_options (new_Hotstring ''btw'' False False BaseHotkeyContext)
     (no_args\<lparr>mode := PStr ''event''\<rparr>) = [''?0'', ''SE''] \<and>
   lower ''Raw'' \<notin> {''input'', ''play'', ''event''} \<and>
   update_options (new_Hotstring ''btw'' False False BaseHotkeyContext)
     (no_args\<lparr>mode := PStr ''Raw''\<rparr>) = [''?0''] \<and>
   hd ''?0'' \<noteq> CHR ''S'' \<and>
   key_delay_error (key_delay no_args) = None \<and>
   Hotstring_update (new_Hotstring ''btw'' False False BaseHotkeyContext)
     (no_args\<lparr>mode := PStr ''Raw''\<rparr>) =
     (Inr (), [Call ''Hotstring'' [Str '':?0:btw'', Str '''']]) \<and>
   Hotstring_update (new_Hotstring ''btw'' False False BaseHotkeyContext)
     (no_args\<lparr>mode := PInt 1\<rparr>) =
     (Inl (AttributeError ''int object has no attribute lower''), [])"
proof -
  let ?hs = "new_Hotstring ''btw'' False False BaseHotkeyContext"
  have l: "lower ''Input'' = ''input''" "lower ''PLAY'' = ''play''" "lower ''event'' = ''event''"
    "lower ''Raw'' = ''raw''"
    by code_simp+
  have p: "case_tokens ?hs (conform_to_case no_args) @ inside_tokens ?hs @
        end_char_tokens (wait_for_end_char no_args) (omit_end_char no_args) @
        flag_tokens (backspacing no_args) ''B'' ''B0'' @ key_delay_tokens (key_delay no_args) @
        priority_tokens (priority no_args) @ flag_tokens (text_flag no_args) ''T'' ''T0'' = [''?0'']"
    "flag_tokens (reset_recognizer no_args) ''Z'' ''Z0'' = []"
    "key_delay_error (key_delay no_args) = None"
    "hs_context ?hs = BaseHotkeyContext" "string ?hs = ''btw''"
    "replacement_arg (replacement no_args) = Str ''''"
    by code_simp+
  note w1 = mode_token_table [where m = "''Input''" and hs = ?hs and a = no_args and n = 1]
  note w2 = mode_token_table [where m = "''PLAY''" and hs = ?hs and a = no_args and n = 1]
  note w3 = mode_token_table [where m = "''event''" and hs = ?hs and a = no_args and n = 1]
  note w4 = mode_token_table [where m = "''Raw''" and hs = ?hs and a = no_args and n = 1]
  have a1: "update_options ?hs (no_args\<lparr>mode := PStr ''Input''\<rparr>) = [''?0'', ''SI'']"
    using w1 l p by simp
  have a2: "update_options ?hs (no_args\<lparr>mode := PStr ''PLAY''\<rparr>) = [''?0'', ''SP'']"
    using w2 l p by simp
  have a3: "update_options ?hs (no_args\<lparr>mode := PStr ''event''\<rparr>) = [''?0'', ''SE'']"
    using w3 l p by simp
  have a4: "update_options ?hs (no_args\<lparr>mode := PStr ''Raw''\<rparr>) = [''?0'']"
    using w4 l p by simp
  have a5: "Hotstring_update ?hs (no_args\<lparr>mode := PStr ''Raw''\<rparr>) =
     (Inr (), [Call ''Hotstring'' [Str '':?0:btw'', Str '''']])"
    using w4 l p a4 by (simp add: u_manager_def)
  have a6: "Hotstring_update ?hs (no_args\<lparr>mode := PInt 1\<rparr>) =
     (Inl (AttributeError ''int object has no attribute lower''), [])"
    using w4 p by simp
  show ?thesis
    using a1 a2 a3 a4 a5 a6 l p by simp
qed

section \<open>Properties of sending and of key state queries\<close>

text \<open>
  C6: \<^verbatim>\<open>send\<close> raises a \<^verbatim>\<open>ValueError\<close> for every level below 0 or above 100, whatever
  the mode, and no directive has been issued when it does; the level check itself accepts
  0 and 100, and with one of the three send modes every level from 0 to 100 is sent to the
  host before the keys and nothing is raised.
\<close>

theorem send_level_range:
  "(level < 0 \<or> 100 < level \<longrightarrow>
      u_send_level level = (Inl (ValueError ''level must be between 0 and 100''), []) \<and>
      (\<exists>msg. send keys md level = (Inl (ValueError msg), []))) \<and>
   u_send_level 0 = (Inr (), [Call ''SendLevel'' [Num 0]]) \<and>
   u_send_level 100 = (Inr (), [Call ''SendLevel'' [Num 100]]) \<and>
   (0 \<le> level \<and> level \<le> 100 \<longrightarrow>
      send keys ''input'' level =
        (Inr (), [Call ''SendLevel'' [Num level], Call ''SendInput'' [Str keys]]) \<and>
      send keys ''play'' level =
        (Inr (), [Call ''SendLevel'' [Num level], Call ''SendPlay'' [Str keys]]) \<and>
      send keys ''event'' level =
        (Inr (), [Call ''SendLevel'' [Num level], Call ''SendEvent'' [Str keys]]))"
proof -
  have bad: "u_send_level level = (Inl (ValueError ''level must be between 0 and 100''), [])"
    if "level < 0 \<or> 100 < level"
    using that by (auto simp: u_send_level_def)
  have raise: "\<exists>msg. send keys md level = (Inl (ValueError msg), [])"
    if "level < 0 \<or> 100 < level"
  proof (cases "send_cmd md")
    case (Inl e)
    then have "e = ValueError ''unknown send mode''"
      by (auto simp: send_cmd_def split: if_splits)
    with Inl show ?thesis
      by (simp add: send_def)
  next
    case (Inr cmd)
    with bad [OF that] show ?thesis
      by (simp add: send_def)
  qed
  have ok: "u_send_level level = (Inr (), [Call ''SendLevel'' [Num level]])"
    if "0 \<le> level \<and> level \<le> 100"
    using that by (simp add: u_send_level_def)
  have cmds: "send_cmd ''input'' = Inr ''SendInput''" "send_cmd ''play'' = Inr ''SendPlay''"
    "send_cmd ''event'' = Inr ''SendEvent''"
    by (simp_all add: send_cmd_def INPUT_def PLAY_def EVENT_def)
  have sent: "send keys ''input'' level =
        (Inr (), [Call ''SendLevel'' [Num level], Call ''SendInput'' [Str keys]]) \<and>
      send keys ''play'' level =
        (Inr (), [Call ''SendLevel'' [Num level], Call ''SendPlay'' [Str keys]]) \<and>
      send keys ''event'' level =
        (Inr (), [Call ''SendLevel'' [Num level], Call ''SendEvent'' [Str keys]])"
    if "0 \<le> level \<and> level \<le> 100"
    using ok [OF that] cmds by (simp add: send_def)
  have b0: "u_send_level 0 = (Inr (), [Call ''SendLevel'' [Num 0]])"
    by (simp add: u_send_level_def)
  have b100: "u_send_level 100 = (Inr (), [Call ''SendLevel'' [Num 100]])"
    by (simp add: u_send_level_def)
  show ?thesis
    using bad raise sent b0 b100 by blast
qed

theorem send_level_range_witness:
  "((-1::int) < 0 \<or> (100::int) < -1) \<and>
   send ''{F24}'' ''input'' (-1) = (Inl (ValueError ''level must be between 0 and 100''), []) \<and>
   ((101::int) < 0 \<or> (100::int) < 101) \<and>
   send ''{F24}'' ''input'' 101 = (Inl (ValueError ''level must be between 0 and 100''), []) \<and>
   (0::int) \<le> 0 \<and> (0::int) \<le> 100 \<and>
   send ''{F24}'' ''input'' 0 = (Inr (), [Call ''SendLevel'' [Num 0], Call ''SendInput'' [Str ''{F24}'']]) \<and>
   (0::int) \<le> 100 \<and> (100::int) \<le> 100 \<and>
   send ''{F24}'' ''input'' 100 = (Inr (), [Call ''SendLevel'' [Num 100], Call ''SendInput'' [Str ''{F24}'']])"
proof -
  have m: "send_cmd ''input'' = Inr ''SendInput''"
    by (simp add: send_cmd_def INPUT_def)
  show ?thesis
    using send_level_range [where level = "-1" and keys = "''{F24}''" and md = "''input''"]
      send_level_range [where level = 101 and keys = "''{F24}''" and md = "''input''"]
      send_level_range [where level = 0 and keys = "''{F24}''" and md = "''input''"]
      send_level_range [where level = 100 and keys = "''{F24}''" and md = "''input''"]
    by (simp add: send_def m)
qed

text \<open>
  C7: \<^verbatim>\<open>is_key_toggled\<close> raises a \<^verbatim>\<open>ValueError\<close>, with no directive issued, for every
  key name whose lower-case form is not one of \<^verbatim>\<open>capslock\<close>, \<^verbatim>\<open>numlock\<close>,
  \<^verbatim>\<open>scrolllock\<close>, \<^verbatim>\<open>insert\<close>, \<^verbatim>\<open>ins\<close>; for every key name whose lower-case form is
  one of them it issues the \<^verbatim>\<open>GetKeyState\<close> query for the name as given, with mode
  \<^verbatim>\<open>T\<close>, and returns the truth value of a non-empty answer.
\<close>

theorem is_key_toggled_validation:
  "(lower k \<notin> {''capslock'', ''numlock'', ''scrolllock'', ''insert'', ''ins''} \<longrightarrow>
      is_key_toggled host k =
        (Inl (ValueError ''key_name must be one of CapsLock, NumLock, ScrollLock, or Insert''), [])) \<and>
   (lower k \<in> {''capslock'', ''numlock'', ''scrolllock'', ''insert'', ''ins''} \<longrightarrow>
      snd (is_key_toggled host k) = [Call ''GetKeyState'' [Str k, Str ''T'']] \<and>
      (host (Call ''GetKeyState'' [Str k, Str ''T'']) \<noteq> Str '''' \<longrightarrow>
         fst (is_key_toggled host k) = Inr (truthy (host (Call ''GetKeyState'' [Str k, Str ''T''])))))"
proof -
  have s: "set toggle_keys = {''capslock'', ''numlock'', ''scrolllock'', ''insert'', ''ins''}"
    by (simp add: toggle_keys_def)
  have q: "snd (u_get_key_state host k (Str ''T'')) = [Call ''GetKeyState'' [Str k, Str ''T'']]"
    by (simp add: u_get_key_state_def Let_def)
  have r: "fst (u_get_key_state host k (Str ''T'')) =
      Inr (truthy (host (Call ''GetKeyState'' [Str k, Str ''T''])))"
    if "host (Call ''GetKeyState'' [Str k, Str ''T'']) \<noteq> Str ''''"
    using that by (simp add: u_get_key_state_def Let_def)
  show ?thesis
    unfolding is_key_toggled_def s using q r by simp
qed

theorem is_key_toggled_validation_witness:
  "lower ''Shift'' \<notin> {''capslock'', ''numlock'', ''scrolllock'', ''insert'', ''ins''} \<and>
   is_key_toggled (\<lambda>c. Num 1) ''Shift'' =
     (Inl (ValueError ''key_name must be one of CapsLock, NumLock, ScrollLock, or Insert''), []) \<and>
   lower ''CapsLock'' \<in> {''capslock'', ''numlock'', ''scrolllock'', ''insert'', ''ins''} \<and>
   (\<lambda>c. Num 1) (Call ''GetKeyState'' [Str ''CapsLock'', Str ''T'']) \<noteq> Str '''' \<and>
   is_key_toggled (\<lambda>c. Num 1) ''CapsLock'' =
     (Inr True, [Call ''GetKeyState'' [Str ''CapsLock'', Str ''T'']]) \<and>
   lower ''INS'' \<in> {''capslock'', ''numlock'', ''scrolllock'', ''insert'', ''ins''} \<and>
   snd (is_key_toggled (\<lambda>c. Num 1) ''INS'') = [Call ''GetKeyState'' [Str ''INS'', Str ''T'']]"
proof -
  have l: "lower ''Shift'' = ''shift''" "lower ''CapsLock'' = ''capslock''" "lower ''INS'' = ''ins''"
    by code_simp+
  show ?thesis
    using is_key_toggled_validation [where k = "''Shift''" and host = "\<lambda>c. Num 1"]
      is_key_toggled_validation [where k = "''CapsLock''" and host = "\<lambda>c. Num 1"]
      is_key_toggled_validation [where k = "''INS''" and host = "\<lambda>c. Num 1"]
    by (simp add: l prod_eq_iff)
qed

section \<open>Properties of remapped keys\<close>

text \<open>
  C9: \<^verbatim>\<open>remap_key\<close> returns a \<^verbatim>\<open>RemappedKey\<close> that holds two hotkeys of the default
  context, the wildcard key-down \<^verbatim>\<open>*origin\<close> and the wildcard key-up \<^verbatim>\<open>*origin Up\<close>,
  each registered and enabled on the way. One call of \<^verbatim>\<open>enable\<close>, \<^verbatim>\<open>disable\<close> or
  \<^verbatim>\<open>toggle\<close> on it issues the \<^verbatim>\<open>On\<close>, \<^verbatim>\<open>Off\<close> or \<^verbatim>\<open>Toggle\<close> directive for the
  first hotkey and then for the second, and nothing else.
\<close>

theorem remap_key_cascade:
  "remap_key origin_key destination_key =
     (Inr \<lparr>wildcard_origin = \<lparr>key_name = ''*'' @ origin_key, hk_context = BaseHotkeyContext\<rparr>,
           wildcard_origin_up = \<lparr>key_name = ''*'' @ origin_key @ '' Up'', hk_context = BaseHotkeyContext\<rparr>\<rparr>,
      [Call ''Hotkey'' [Hash BaseHotkeyContext, Str (''*'' @ origin_key),
         Fn (SendClosure (''{Blind}{'' @ destination_key @ '' DownR}'')), Str ''B0P0T1I0''],
       Call ''HotkeySpecial'' [Str (''*'' @ origin_key), Str ''On''],
       Call ''Hotkey'' [Hash BaseHotkeyContext, Str (''*'' @ origin_key @ '' Up''),
         Fn (SendClosure (''{Blind}{'' @ destination_key @ '' Up}'')), Str ''B0P0T1I0''],
       Call ''HotkeySpecial'' [Str (''*'' @ origin_key @ '' Up''), Str ''On'']]) \<and>
   RemappedKey_enable
     \<lparr>wildcard_origin = \<lparr>key_name = ''*'' @ origin_key, hk_context = BaseHotkeyContext\<rparr>,
      wildcard_origin_up = \<lparr>key_name = ''*'' @ origin_key @ '' Up'', hk_context = BaseHotkeyContext\<rparr>\<rparr> =
     [Call ''HotkeySpecial'' [Str (''*'' @ origin_key), Str ''On''],
      Call ''HotkeySpecial'' [Str (''*'' @ origin_key @ '' Up''), Str ''On'']] \<and>
   RemappedKey_disable
     \<lparr>wildcard_origin = \<lparr>key_name = ''*'' @ origin_key, hk_context = BaseHotkeyContext\<rparr>,
      wildcard_origin_up = \<lparr>key_name = ''*'' @ origin_key @ '' Up'', hk_context = BaseHotkeyContext\<rparr>\<rparr> =
     [Call ''HotkeySpecial'' [Str (''*'' @ origin_key), Str ''Off''],
      Call ''HotkeySpecial'' [Str (''*'' @ origin_key @ '' Up''), Str ''Off'']] \<and>
   RemappedKey_toggle
     \<lparr>wildcard_origin = \<lparr>key_name = ''*'' @ origin_key, hk_context = BaseHotkeyContext\<rparr>,
      wildcard_origin_up = \<lparr>key_name = ''*'' @ origin_key @ '' Up'', hk_context = BaseHotkeyContext\<rparr>\<rparr> =
     [Call ''HotkeySpecial'' [Str (''*'' @ origin_key), Str ''Toggle''],
      Call ''HotkeySpecial'' [Str (''*'' @ origin_key @ '' Up''), Str ''Toggle'']]"
proof -
  have s: "str_int 0 = ''0''" "str_int 1 = ''1''"
    by code_simp+
  have o: "concat (flag_tokens (Some False) ''B'' ''B0'' @ number_tokens ''P'' (Some 0) @
      number_tokens ''T'' (Some 1) @ number_tokens ''I'' (Some 0)) = ''B0P0T1I0''"
    by (simp add: flag_tokens_def number_tokens_def s)
  have h: "hotkey BaseHotkeyContext (''*'' @ k) f (Some False) (Some 0) (Some 1) (Some 0) =
      (Inr \<lparr>key_name = ''*'' @ k, hk_context = BaseHotkeyContext\<rparr>,
       [Call ''Hotkey'' [Hash BaseHotkeyContext, Str (''*'' @ k), Fn f, Str ''B0P0T1I0''],
        Call ''HotkeySpecial'' [Str (''*'' @ k), Str ''On'']])" for k f
    using o by (simp add: hotkey_def hotkey_decorator_def Hotkey_update_def Hotkey_enable_def
        Hotkey_switch_def u_manager_def Let_def)
  have r: "remap_key origin_key destination_key =
     (Inr \<lparr>wildcard_origin = \<lparr>key_name = ''*'' @ origin_key, hk_context = BaseHotkeyContext\<rparr>,
           wildcard_origin_up = \<lparr>key_name = ''*'' @ origin_key @ '' Up'', hk_context = BaseHotkeyContext\<rparr>\<rparr>,
      [Call ''Hotkey'' [Hash BaseHotkeyContext, Str (''*'' @ origin_key),
         Fn (SendClosure (''{Blind}{'' @ destination_key @ '' DownR}'')), Str ''B0P0T1I0''],
       Call ''HotkeySpecial'' [Str (''*'' @ origin_key), Str ''On''],
       Call ''Hotkey'' [Hash BaseHotkeyContext, Str (''*'' @ origin_key @ '' Up''),
         Fn (SendClosure (''{Blind}{'' @ destination_key @ '' Up}'')), Str ''B0P0T1I0''],
       Call ''HotkeySpecial'' [Str (''*'' @ origin_key @ '' Up''), Str ''On'']])"
    using h [of origin_key] h [of "origin_key @ '' Up''"]
    by (simp add: remap_key_def default_context_def)
  show ?thesis
    using r
    by (simp add: RemappedKey_enable_def RemappedKey_disable_def RemappedKey_toggle_def
        Hotkey_enable_def Hotkey_disable_def Hotkey_toggle_def Hotkey_switch_def u_manager_def)
qed

section \<open>Properties of menu items\<close>

lemmas single_item_defs = Menu_delete_item_def Menu_check_def Menu_uncheck_def Menu_toggle_check_def
  Menu_enable_def Menu_disable_def Menu_toggle_enable_def Menu_set_default_def Menu_remove_icon_def

lemma u_item_name_idem: "u_item_name (u_item_name v) = u_item_name v"
  by (cases v) simp_all

lemma item_of_update:
  assumes "c \<in> set (u_update_item m (PStr s) new_name a)"
  shows "item_of c = Some (Str s)"
proof -
  from assms consider
      nn where "c \<in> set (Menu_rename m (PStr s) nn)"
    | "c \<in> set (u_call m [Str ''Add'', Str s, Str '''', Str (option_str a)])"
    | "c \<in> set (u_call m [Str ''Add'', Str s, thing a])"
    | "c \<in> set (Menu_enable m (PStr s))"
    | "c \<in> set (Menu_disable m (PStr s))"
    | "c \<in> set (Menu_check m (PStr s))"
    | "c \<in> set (Menu_uncheck m (PStr s))"
    | "c \<in> set (icon_calls m (PStr s) a)"
    by (auto simp: u_update_item_def Let_def split: option.splits if_splits)
  then show ?thesis
  proof cases
    case 1 then show ?thesis by (simp add: Menu_rename_def u_call_def)
  next
    case 2 then show ?thesis by (simp add: u_call_def)
  next
    case 3 then show ?thesis by (simp add: u_call_def)
  next
    case 4 then show ?thesis by (simp add: Menu_enable_def u_call_def)
  next
    case 5 then show ?thesis by (simp add: Menu_disable_def u_call_def)
  next
    case 6 then show ?thesis by (simp add: Menu_check_def u_call_def)
  next
    case 7 then show ?thesis by (simp add: Menu_uncheck_def u_call_def)
  next
    case 8 then show ?thesis
      by (auto simp: icon_calls_def Menu_set_icon_def u_call_def split: option.splits if_splits)
  qed
qed

text \<open>
  C10: every operation of \<^verbatim>\<open>Menu\<close> that takes an item identifier hands an integer
  identifier \<open>n\<close> to the host as the position string of \<open>n + 1\<close> followed by \<^verbatim>\<open>&\<close>,
  and a string identifier unchanged. The operations with one directive are stated
  directive by directive; \<^verbatim>\<open>update\<close> with the integer issues what it issues with the
  position string, and with a string every directive it issues names that string;
  the three insert operations with the integer do what they do with the position string,
  and with a string their \<^verbatim>\<open>Insert\<close> directive names that string.
\<close>

theorem item_name_translation:
  "u_item_name (PInt n) = PStr (str_int (n + 1) @ ''&'') \<and>
   u_item_name (PStr s) = PStr s \<and>
   Menu_delete_item m (PInt n) = [Call ''Menu'' [Str (name m), Str ''Delete'', Str (str_int (n + 1) @ ''&'')]] \<and>
   Menu_delete_item m (PStr s) = [Call ''Menu'' [Str (name m), Str ''Delete'', Str s]] \<and>
   Menu_rename m (PInt n) nn =
     [Call ''Menu'' [Str (name m), Str ''Rename'', Str (str_int (n + 1) @ ''&''), to_arg nn]] \<and>
   Menu_rename m (PStr s) nn = [Call ''Menu'' [Str (name m), Str ''Rename'', Str s, to_arg nn]] \<and>
   Menu_check m (PInt n) = [Call ''Menu'' [Str (name m), Str ''Check'', Str (str_int (n + 1) @ ''&'')]] \<and>
   Menu_check m (PStr s) = [Call ''Menu'' [Str (name m), Str ''Check'', Str s]] \<and>
   Menu_uncheck m (PInt n) = [Call ''Menu'' [Str (name m), Str ''Uncheck'', Str (str_int (n + 1) @ ''&'')]] \<and>
   Menu_uncheck m (PStr s) = [Call ''Menu'' [Str (name m), Str ''Uncheck'', Str s]] \<and>
   Menu_toggle_check m (PInt n) =
     [Call ''Menu'' [Str (name m), Str ''ToggleCheck'', Str (str_int (n + 1) @ ''&'')]] \<and>
   Menu_toggle_check m (PStr s) = [Call ''Menu'' [Str (name m), Str ''ToggleCheck'', Str s]] \<and>
   Menu_enable m (PInt n) = [Call ''Menu'' [Str (name m), Str ''Enable'', Str (str_int (n + 1) @ ''&'')]] \<and>
   Menu_enable m (PStr s) = [Call ''Menu'' [Str (name m), Str ''Enable'', Str s]] \<and>
   Menu_disable m (PInt n) = [Call ''Menu'' [Str (name m), Str ''Disable'', Str (str_int (n + 1) @ ''&'')]] \<and>
   Menu_disable m (PStr s) = [Call ''Menu'' [Str (name m), Str ''Disable'', Str s]] \<and>
   Menu_toggle_enable m (PInt n) =
     [Call ''Menu'' [Str (name m), Str ''ToggleEnable'', Str (str_int (n + 1) @ ''&'')]] \<and>
   Menu_toggle_enable m (PStr s) = [Call ''Menu'' [Str (name m), Str ''ToggleEnable'', Str s]] \<and>
   Menu_set_default m (PInt n) = [Call ''Menu'' [Str (name m), Str ''Default'', Str (str_int (n + 1) @ ''&'')]] \<and>
   Menu_set_default m (PStr s) = [Call ''Menu'' [Str (name m), Str ''Default'', Str s]] \<and>
   Menu_remove_icon m (PInt n) = [Call ''Menu'' [Str (name m), Str ''NoIcon'', Str (str_int (n + 1) @ ''&'')]] \<and>
   Menu_remove_icon m (PStr s) = [Call ''Menu'' [Str (name m), Str ''NoIcon'', Str s]] \<and>
   map item_of (Menu_set_icon m (PInt n) f num w) = [Some (Str (str_int (n + 1) @ ''&''))] \<and>
   map item_of (Menu_set_icon m (PStr s) f num w) = [Some (Str s)] \<and>
   Menu_update m (PInt n) new_name a = Menu_update m (PStr (str_int (n + 1) @ ''&'')) new_name a \<and>
   (\<forall>c \<in> set (Menu_update m (PStr s) new_name a). item_of c = Some (Str s)) \<and>
   Menu_insert m (PInt n) nn a = Menu_insert m (PStr (str_int (n + 1) @ ''&'')) nn a \<and>
   (\<exists>t. Menu_insert m (PStr s) nn a =
      Inr (Call ''Menu'' [Str (name m), Str ''Insert'', Str s, to_arg nn,
             thing (a\<lparr>submenu := None\<rparr>), Str (option_str a)] # t)) \<and>
   Menu_insert_separator m (PInt n) = Menu_insert_separator m (PStr (str_int (n + 1) @ ''&'')) \<and>
   (\<exists>t. Menu_insert_separator m (PStr s) =
      Inr (Call ''Menu'' [Str (name m), Str ''Insert'', Str s, NoneArg, NoneArg, Str []] # t)) \<and>
   Menu_insert_submenu m (PInt n) nn sm a =
     Menu_insert_submenu m (PStr (str_int (n + 1) @ ''&'')) nn sm a \<and>
   (\<exists>t. Menu_insert_submenu m (PStr s) nn sm a =
      Inr (Call ''Menu'' [Str (name m), Str ''Insert'', Str s, to_arg nn, Str ('':'' @ name sm),
             Str (option_str (a\<lparr>item_priority := None\<rparr>))] # t))"
proof -
  have single: "Menu_delete_item m (PInt n) = [Call ''Menu'' [Str (name m), Str ''Delete'', Str (str_int (n + 1) @ ''&'')]]"
    "Menu_delete_item m (PStr s) = [Call ''Menu'' [Str (name m), Str ''Delete'', Str s]]"
    "Menu_check m (PInt n) = [Call ''Menu'' [Str (name m), Str ''Check'', Str (str_int (n + 1) @ ''&'')]]"
    "Menu_check m (PStr s) = [Call ''Menu'' [Str (name m), Str ''Check'', Str s]]"
    "Menu_uncheck m (PInt n) = [Call ''Menu'' [Str (name m), Str ''Uncheck'', Str (str_int (n + 1) @ ''&'')]]"
    "Menu_uncheck m (PStr s) = [Call ''Menu'' [Str (name m), Str ''Uncheck'', Str s]]"
    "Menu_toggle_check m (PInt n) =
       [Call ''Menu'' [Str (name m), Str ''ToggleCheck'', Str (str_int (n + 1) @ ''&'')]]"
    "Menu_toggle_check m (PStr s) = [Call ''Menu'' [Str (name m), Str ''ToggleCheck'', Str s]]"
    "Menu_enable m (PInt n) = [Call ''Menu'' [Str (name m), Str ''Enable'', Str (str_int (n + 1) @ ''&'')]]"
    "Menu_enable m (PStr s) = [Call ''Menu'' [Str (name m), Str ''Enable'', Str s]]"
    "Menu_disable m (PInt n) = [Call ''Menu'' [Str (name m), Str ''Disable'', Str (str_int (n + 1) @ ''&'')]]"
    "Menu_disable m (PStr s) = [Call ''Menu'' [Str (name m), Str ''Disable'', Str s]]"
    "Menu_toggle_enable m (PInt n) =
       [Call ''Menu'' [Str (name m), Str ''ToggleEnable'', Str (str_int (n + 1) @ ''&'')]]"
    "Menu_toggle_enable m (PStr s) = [Call ''Menu'' [Str (name m), Str ''ToggleEnable'', Str s]]"
    "Menu_set_default m (PInt n) = [Call ''Menu'' [Str (name m), Str ''Default'', Str (str_int (n + 1) @ ''&'')]]"
    "Menu_set_default m (PStr s) = [Call ''Menu'' [Str (name m), Str ''Default'', Str s]]"
    "Menu_remove_icon m (PInt n) = [Call ''Menu'' [Str (name m), Str ''NoIcon'', Str (str_int (n + 1) @ ''&'')]]"
    "Menu_remove_icon m (PStr s) = [Call ''Menu'' [Str (name m), Str ''NoIcon'', Str s]]"
    by (simp_all add: single_item_defs u_call_def)
  have rename: "Menu_rename m (PInt n) nn =
       [Call ''Menu'' [Str (name m), Str ''Rename'', Str (str_int (n + 1) @ ''&''), to_arg nn]]"
    "Menu_rename m (PStr s) nn = [Call ''Menu'' [Str (name m), Str ''Rename'', Str s, to_arg nn]]"
    by (simp_all add: Menu_rename_def u_call_def)
  have icon: "map item_of (Menu_set_icon m (PInt n) f num w) = [Some (Str (str_int (n + 1) @ ''&''))]"
    "map item_of (Menu_set_icon m (PStr s) f num w) = [Some (Str s)]"
    by (simp_all add: Menu_set_icon_def u_call_def)
  have upd: "Menu_update m (PInt n) new_name a = Menu_update m (PStr (str_int (n + 1) @ ''&'')) new_name a"
    by (simp add: Menu_update_def u_update_item_def)
  have upd_s: "\<forall>c \<in> set (Menu_update m (PStr s) new_name a). item_of c = Some (Str s)"
    using item_of_update by (simp add: Menu_update_def)
  have ins: "Menu_insert m (PInt n) nn a = Menu_insert m (PStr (str_int (n + 1) @ ''&'')) nn a"
    "Menu_insert_separator m (PInt n) = Menu_insert_separator m (PStr (str_int (n + 1) @ ''&''))"
    "Menu_insert_submenu m (PInt n) nn sm a =
       Menu_insert_submenu m (PStr (str_int (n + 1) @ ''&'')) nn sm a"
    by (simp_all add: Menu_insert_def Menu_insert_separator_def Menu_insert_submenu_def
        u_insert_item_def)
  have o: "option_str (a\<lparr>submenu := None\<rparr>) = option_str a"
    "option_str (a\<lparr>callback := None, submenu := Some sm, item_priority := None\<rparr>) =
       option_str (a\<lparr>item_priority := None\<rparr>)"
    by (simp_all add: option_str_def)
  have d: "thing item_defaults = NoneArg" "option_str item_defaults = []"
    by (simp_all add: thing_def option_str_def item_defaults_def number_tokens_def sign_tokens_def)
  have ins_s: "\<exists>t. Menu_insert m (PStr s) nn a =
      Inr (Call ''Menu'' [Str (name m), Str ''Insert'', Str s, to_arg nn,
             thing (a\<lparr>submenu := None\<rparr>), Str (option_str a)] # t)"
    by (simp add: Menu_insert_def u_insert_item_def u_call_def o)
  have sep_s: "\<exists>t. Menu_insert_separator m (PStr s) =
      Inr (Call ''Menu'' [Str (name m), Str ''Insert'', Str s, NoneArg, NoneArg, Str []] # t)"
    by (simp add: Menu_insert_separator_def u_insert_item_def u_call_def d)
  have sub_s: "\<exists>t. Menu_insert_submenu m (PStr s) nn sm a =
      Inr (Call ''Menu'' [Str (name m), Str ''Insert'', Str s, to_arg nn, Str ('':'' @ name sm),
             Str (option_str (a\<lparr>item_priority := None\<rparr>))] # t)"
    by (simp add: Menu_insert_submenu_def u_insert_item_def u_call_def o thing_def)
  show ?thesis
    by (intro conjI u_item_name.simps single rename icon upd upd_s ins ins_s sep_s sub_s)
qed

theorem item_name_translation_witness:
  "Menu_delete_item \<lparr>name = ''tray''\<rparr> (PInt 0) = [Call ''Menu'' [Str ''tray'', Str ''Delete'', Str ''1&'']] \<and>
   Menu_delete_item \<lparr>name = ''tray''\<rparr> (PStr ''Open'') =
     [Call ''Menu'' [Str ''tray'', Str ''Delete'', Str ''Open'']] \<and>
   Menu_update \<lparr>name = ''tray''\<rparr> (PStr ''Open'') None item_defaults =
     [Call ''Menu'' [Str ''tray'', Str ''Enable'', Str ''Open''],
      Call ''Menu'' [Str ''tray'', Str ''Uncheck'', Str ''Open'']] \<and>
   item_of (Call ''Menu'' [Str ''tray'', Str ''Enable'', Str ''Open'']) = Some (Str ''Open'') \<and>
   item_of (Call ''Menu'' [Str ''tray'', Str ''Uncheck'', Str ''Open'']) = Some (Str ''Open'') \<and>
   Menu_update \<lparr>name = ''tray''\<rparr> (PInt 0) None item_defaults =
     Menu_update \<lparr>name = ''tray''\<rparr> (PStr ''1&'') None item_defaults"
proof -
  have s: "str_int 1 = ''1''"
    by code_simp
  have u: "Menu_update \<lparr>name = ''tray''\<rparr> (PStr ''Open'') None item_defaults =
     [Call ''Menu'' [Str ''tray'', Str ''Enable'', Str ''Open''],
      Call ''Menu'' [Str ''tray'', Str ''Uncheck'', Str ''Open'']]"
    by code_simp
  show ?thesis
    using item_name_translation [where m = "\<lparr>name = ''tray''\<rparr>" and n = 0 and s = "''Open''"
        and new_name = None and a = item_defaults and nn = PNone and f = "''icon.ico''"
        and num = None and w = None and sm = "\<lparr>name = ''sub''\<rparr>"]
    by (simp add: s u)
qed

end
